theory Spec2Isabelle
  imports Main "HOL-Library.AList" "HOL-Library.Char_ord" "HOL-Library.List_Lexorder"
begin

section \<open>Python values used by make-eaf.py\<close>

text \<open>
  The script raises no exception of its own: every failure is a Python built-in
  exception raised by an indexing, an arithmetic operation or a library call.
  The specification's \<open>EmptyGroupError\<close> is the \<open>ZeroDivisionError\<close> of line 324,
  its \<open>MissingTierError\<close> a \<open>KeyError\<close>, its \<open>MissingParentError\<close> a
  \<open>ValueError\<close> of \<open>add_ref_annotation\<close>.
\<close>

datatype error = KeyError | ValueError | TypeError | IndexError | ZeroDivisionError

text \<open>
  A Python \<open>dict\<close> keeps insertion order. It is an association list:
  \<open>d[k] = v\<close> is \<open>AList.update k v d\<close> (in place when the key is there, appended otherwise),
  \<open>d.items()\<close> is the list itself, \<open>d[k]\<close> is \<open>getitem d k\<close>.
\<close>

type_synonym 'v dict = "(string \<times> 'v) list"

definition getitem :: "'v dict \<Rightarrow> string \<Rightarrow> error + 'v" where
  "getitem d k = (case map_of d k of None \<Rightarrow> Inl KeyError | Some v \<Rightarrow> Inr v)"

text \<open>An exception ends the run: \<open>bind m f\<close> continues with \<open>f\<close> only when \<open>m\<close> returned.\<close>

definition bind :: "error + 'a \<Rightarrow> ('a \<Rightarrow> error + 'b) \<Rightarrow> error + 'b" where
  "bind m f = (case m of Inl e \<Rightarrow> Inl e | Inr x \<Rightarrow> f x)"

text \<open>\<open>sep.join(xs)\<close> on a list of strings.\<close>

fun join :: "string \<Rightarrow> string list \<Rightarrow> string" where
  "join sep [] = []"
| "join sep [x] = x"
| "join sep (x # y # ys) = x @ sep @ join sep (y # ys)"

text \<open>\<open>'{:d}'.format(n)\<close> for a non-negative integer.\<close>

definition digit_char :: "nat \<Rightarrow> char" where
  "digit_char d = char_of (48 + d)"

fun str_nat :: "nat \<Rightarrow> string" where
  "str_nat n = (if n < 10 then [digit_char n] else str_nat (n div 10) @ [digit_char (n mod 10)])"

declare str_nat.simps [simp del]

text \<open>The identifiers \<open>'a{:d}'.format(n)\<close> and \<open>'ts{:d}'.format(n)\<close>.\<close>

definition format_aid :: "nat \<Rightarrow> string" where
  "format_aid n = ''a'' @ str_nat n"

definition format_ts :: "nat \<Rightarrow> string" where
  "format_ts n = ''ts'' @ str_nat n"

text \<open>
  \<open>int(a / b)\<close> on two Python integers: true division rounds the exact quotient to the
  nearest double, and \<open>int\<close> truncates toward zero. For \<open>|a| < 2^53\<close> the rounding never
  reaches the next integer, so the result is the truncated quotient. Beyond that range
  the result depends on the rounding, which is left to the parameter \<open>fq\<close>.
\<close>

definition int_truediv :: "(int \<Rightarrow> int \<Rightarrow> int) \<Rightarrow> int \<Rightarrow> int \<Rightarrow> error + int" where
  "int_truediv fq a b =
     (if b = 0 then Inl ZeroDivisionError
      else if \<bar>a\<bar> < 2 ^ 53 then Inr (sgn a * sgn b * (\<bar>a\<bar> div \<bar>b\<bar>))
      else Inr (fq a b))"

section \<open>The Eaf object of pympi.Elan\<close>

text \<open>
  A tier is the tuple \<open>(aligned_annotations, reference_annotations, attributes, ordinal)\<close>.
  An aligned annotation is \<open>id \<rightarrow> (begin_ts, end_ts, value, svg_ref)\<close>, a reference
  annotation is \<open>id \<rightarrow> (reference, value, previous, svg_ref)\<close>.
\<close>

type_synonym aligned_annotation = "string \<times> string \<times> string \<times> string option"
type_synonym reference_annotation = "string \<times> string \<times> string option \<times> string option"
type_synonym params = "string option dict"

record tier =
  aligned_annotations :: "aligned_annotation dict"
  reference_annotations :: "reference_annotation dict"
  attributes :: params
  ordinal :: nat

record eaf =
  adocument :: "string dict"
  maxts :: nat
  maxaid :: nat
  annotations :: "string dict"
  linguistic_types :: "params dict"
  tiers :: "tier dict"
  timeslots :: "int option dict"

text \<open>
  pympi's \<open>Elan.py\<close> is a library the script imports. Its methods are modelled after the
  library, with the script's arguments only (the other arguments keep their defaults).
  Three things are parameters of the model:
  \<^item> \<open>find_parent e id_tier tier2 time\<close>: what \<open>add_ref_annotation\<close> does before it creates
    the annotation, namely its checks and its search, in tier \<open>tier2\<close>, of the annotation at
    time \<open>time\<close> that the new annotation will refer to. The script requires a patched
    library for this search, so that it is not fixed here: it returns the identifier
    found or the exception raised.
  \<^item> \<open>ref_annotation_data e id_tier\<close>: \<open>get_ref_annotation_data_for_tier\<close>, the list of
    the tuples \<open>(start, end, value, refvalue)\<close> of a reference tier, resolved through the
    parent tiers of the document; \<open>refvalue\<close> is the text value of the parent annotation.
  \<^item> \<open>float_quot\<close>: see \<open>int_truediv\<close>.
\<close>

record env =
  find_parent :: "eaf \<Rightarrow> string \<Rightarrow> string \<Rightarrow> int option \<Rightarrow> error + string"
  ref_annotation_data :: "eaf \<Rightarrow> string \<Rightarrow> error + (int option \<times> int option \<times> string \<times> string) list"
  float_quot :: "int \<Rightarrow> int \<Rightarrow> int"

text \<open>
  \<open>generate_annotation_id\<close> and \<open>generate_ts_id\<close> increment a counter; a counter that is
  zero is first recomputed from the digits in the names of the time slots, and
  \<open>int('')\<close> raises \<open>ValueError\<close>.
\<close>

definition is_digit :: "char \<Rightarrow> bool" where
  "is_digit c = (48 \<le> (of_char c :: nat) \<and> (of_char c :: nat) \<le> 57)"

definition digits_int :: "string \<Rightarrow> error + nat" where
  "digits_int a =
     (let ds = filter is_digit a
      in if ds = [] then Inl ValueError
         else Inr (foldl (\<lambda>n c. 10 * n + (of_char c - 48)) 0 ds))"

fun digits_ints :: "string list \<Rightarrow> error + nat list" where
  "digits_ints [] = Inr []"
| "digits_ints (a # rest) =
     bind (digits_int a) (\<lambda>n. bind (digits_ints rest) (\<lambda>ns. Inr (n # ns)))"

definition next_counter :: "nat \<Rightarrow> int option dict \<Rightarrow> error + nat" where
  "next_counter counter ts =
     (if counter = 0
      then bind (digits_ints (map fst ts)) (\<lambda>valid. Inr (fold max (valid @ [1]) 0 + 1))
      else Inr (counter + 1))"

definition generate_annotation_id :: "eaf \<Rightarrow> error + (string \<times> eaf)" where
  "generate_annotation_id e =
     bind (next_counter (maxaid e) (timeslots e)) (\<lambda>n.
     Inr (format_aid n, e\<lparr>maxaid := n\<rparr>))"

definition generate_ts_id :: "eaf \<Rightarrow> int option \<Rightarrow> error + (string \<times> eaf)" where
  "generate_ts_id e time =
     (if (case time of None \<Rightarrow> False | Some t \<Rightarrow> t \<noteq> 0 \<and> t < 0) then Inl ValueError
      else bind (next_counter (maxts e) (timeslots e)) (\<lambda>n.
           let ts = format_ts n
           in Inr (ts, e\<lparr>maxts := n, timeslots := AList.update ts time (timeslots e)\<rparr>)))"

text \<open>
  \<open>add_annotation(id_tier, start, end, value)\<close>: comparing \<open>None\<close> with an integer raises
  \<open>TypeError\<close>.
\<close>

definition add_annotation ::
  "eaf \<Rightarrow> string \<Rightarrow> int option \<Rightarrow> int option \<Rightarrow> string \<Rightarrow> error + eaf" where
  "add_annotation e id_tier start en val =
     bind (getitem (tiers e) id_tier) (\<lambda>t.
     if reference_annotations t \<noteq> [] then Inl ValueError
     else if start = en then Inl ValueError
     else (case (start, en) of
             (Some s, Some f) \<Rightarrow>
               if s > f then Inl ValueError
               else if s < 0 then Inl ValueError
               else
                 bind (generate_ts_id e start) (\<lambda>(start_ts, e1).
                 bind (generate_ts_id e1 en) (\<lambda>(end_ts, e2).
                 bind (generate_annotation_id e2) (\<lambda>(aid, e3).
                 Inr (e3\<lparr>annotations := AList.update aid id_tier (annotations e3),
                          tiers := AList.update id_tier
                            (t\<lparr>aligned_annotations :=
                                 AList.update aid (start_ts, end_ts, val, None)
                                   (aligned_annotations t)\<rparr>)
                            (tiers e3)\<rparr>))))
           | _ \<Rightarrow> Inl TypeError))"

text \<open>\<open>add_ref_annotation(id_tier, tier2, time, value, prev)\<close>.\<close>

definition add_ref_annotation ::
  "env \<Rightarrow> eaf \<Rightarrow> string \<Rightarrow> string \<Rightarrow> int option \<Rightarrow> string \<Rightarrow> string option \<Rightarrow> error + eaf" where
  "add_ref_annotation env e id_tier tier2 time val prev =
     bind (find_parent env e id_tier tier2 time) (\<lambda>ann.
     bind (generate_annotation_id e) (\<lambda>(aid, e1).
     bind (getitem (tiers e1) id_tier) (\<lambda>t.
     Inr (e1\<lparr>annotations := AList.update aid id_tier (annotations e1),
              tiers := AList.update id_tier
                (t\<lparr>reference_annotations :=
                     AList.update aid (ann, val, prev, None) (reference_annotations t)\<rparr>)
                (tiers e1)\<rparr>))))"

text \<open>
  \<open>add_tier(tier_id, ling, parent, tier_dict)\<close>: a linguistic type that is not declared is
  replaced by the first declared one in sorted order (\<open>IndexError\<close> when there is none);
  with a \<open>tier_dict\<close> the tier takes it as its attributes and the other arguments are
  ignored.
\<close>

definition add_tier ::
  "eaf \<Rightarrow> string \<Rightarrow> string option \<Rightarrow> string option \<Rightarrow> params option \<Rightarrow> error + eaf" where
  "add_tier e tier_id ling parent tier_dict =
     (if tier_id = [] then Inl ValueError
      else
        bind (if (case ling of None \<Rightarrow> False | Some l \<Rightarrow> l \<in> set (map fst (linguistic_types e)))
              then Inr ling
              else (case sort (map fst (linguistic_types e)) of
                      [] \<Rightarrow> Inl IndexError
                    | l # _ \<Rightarrow> Inr (Some l))) (\<lambda>ling.
        let attrs = (case tier_dict of
                       None \<Rightarrow>
                         [(''TIER_ID'', Some tier_id), (''LINGUISTIC_TYPE_REF'', ling),
                          (''PARENT_REF'', parent), (''PARTICIPANT'', None),
                          (''DEFAULT_LOCALE'', None), (''LANG_REF'', None),
                          (''ANNOTATOR'', None)]
                     | Some d \<Rightarrow> d)
        in Inr (e\<lparr>tiers := AList.update tier_id
                  \<lparr>aligned_annotations = [], reference_annotations = [],
                   attributes = attrs, ordinal = length (tiers e)\<rparr> (tiers e)\<rparr>)))"

text \<open>
  \<open>remove_tier(id_tier)\<close> deletes the tier and then the time slots that no aligned
  annotation uses (\<open>clean_time_slots\<close>, which raises \<open>KeyError\<close> on a used time slot that
  does not exist).
\<close>

definition clean_time_slots :: "eaf \<Rightarrow> error + eaf" where
  "clean_time_slots e =
     (let used = concat (map (\<lambda>(name, t).
                   concat (map (\<lambda>(aid, (b, f, val, svg)). [b, f]) (aligned_annotations t)))
                 (tiers e))
      in if list_ex (\<lambda>u. u \<notin> set (map fst (timeslots e))) used then Inl KeyError
         else Inr (e\<lparr>timeslots := filter (\<lambda>(k, v). k \<in> set used) (timeslots e)\<rparr>))"

definition remove_tier :: "eaf \<Rightarrow> string \<Rightarrow> error + eaf" where
  "remove_tier e id_tier =
     bind (getitem (tiers e) id_tier) (\<lambda>t.
     clean_time_slots (e\<lparr>tiers := AList.delete id_tier (tiers e)\<rparr>))"

text \<open>\<open>add_linguistic_type(lingtype, param_dict)\<close>.\<close>

definition add_linguistic_type :: "eaf \<Rightarrow> string \<Rightarrow> params \<Rightarrow> eaf" where
  "add_linguistic_type e lingtype param_dict =
     e\<lparr>linguistic_types := AList.update lingtype
         (if param_dict \<noteq> [] then param_dict
          else [(''LINGUISTIC_TYPE_ID'', Some lingtype), (''TIME_ALIGNABLE'', Some ''true''),
                (''GRAPHIC_REFERENCES'', Some ''false''), (''CONSTRAINTS'', None)])
         (linguistic_types e)\<rparr>"

text \<open>
  \<open>Eaf()\<close>: a new document with the linguistic type \<open>default-lt\<close> and the tier \<open>default\<close>.
  \<open>adoc\<close> is the dictionary of document attributes, which holds the date read from the
  clock when the object is created.
\<close>

definition Eaf :: "string dict \<Rightarrow> error + eaf" where
  "Eaf adoc =
     add_tier
       (add_linguistic_type
          \<lparr>adocument = adoc, maxts = 1, maxaid = 1, annotations = [], linguistic_types = [],
           tiers = [], timeslots = []\<rparr> ''default-lt'' [])
       ''default'' (Some ''default-lt'') None None"

text \<open>\<open>get_parameters_for_tier\<close> and \<open>get_annotation_data_for_tier\<close>.\<close>

definition get_parameters_for_tier :: "eaf \<Rightarrow> string \<Rightarrow> error + params" where
  "get_parameters_for_tier e id_tier = bind (getitem (tiers e) id_tier) (\<lambda>t. Inr (attributes t))"

fun aligned_data ::
  "int option dict \<Rightarrow> aligned_annotation dict \<Rightarrow> error + (int option \<times> int option \<times> string) list" where
  "aligned_data ts [] = Inr []"
| "aligned_data ts ((aid, (b, f, val, svg)) # rest) =
     bind (getitem ts b) (\<lambda>start.
     bind (getitem ts f) (\<lambda>en.
     bind (aligned_data ts rest) (\<lambda>l. Inr ((start, en, val) # l))))"

text \<open>
  On a tier with reference annotations the method returns the tuples of
  \<open>get_ref_annotation_data_for_tier\<close>; the script reads their first three components only.
\<close>

definition get_annotation_data_for_tier ::
  "env \<Rightarrow> eaf \<Rightarrow> string \<Rightarrow> error + (int option \<times> int option \<times> string) list" where
  "get_annotation_data_for_tier env e id_tier =
     bind (getitem (tiers e) id_tier) (\<lambda>t.
     if reference_annotations t \<noteq> []
     then bind (ref_annotation_data env e id_tier) (\<lambda>l.
          Inr (map (\<lambda>(start, en, val, parent). (start, en, val)) l))
     else aligned_data (timeslots e) (aligned_annotations t))"

section \<open>The copy functions of make-eaf.py\<close>

text \<open>
  The functions receive references to Eaf objects and mutate the target in place. The
  objects live in a heap, a function from references to Eaf values; a function of the
  script takes the heap and returns the heap it leaves. The names \<open>_tier_copy\<close>,
  \<open>_ref_tier_copy\<close>, \<open>_tier_copy_to_ref\<close> and \<open>_copy_symbolic_subdivision_tier\<close> lose their
  leading underscore.
\<close>

type_synonym 'r heap = "'r \<Rightarrow> eaf"

definition tier_params :: "'r heap \<Rightarrow> 'r \<Rightarrow> string \<Rightarrow> params \<Rightarrow> error + params" where
  "tier_params h source_eaf source_tier_name override_params =
     (if override_params \<noteq> [] then Inr override_params
      else get_parameters_for_tier (h source_eaf) source_tier_name)"

fun tier_copy_loop ::
  "eaf \<Rightarrow> string \<Rightarrow> (int option \<times> int option \<times> string) list \<Rightarrow> error + eaf" where
  "tier_copy_loop target target_tier_name [] = Inr target"
| "tier_copy_loop target target_tier_name ((start, en, val) # rest) =
     bind (add_annotation target target_tier_name start en val) (\<lambda>target'.
     tier_copy_loop target' target_tier_name rest)"

definition tier_copy ::
  "env \<Rightarrow> 'r heap \<Rightarrow> 'r \<Rightarrow> 'r \<Rightarrow> string \<Rightarrow> string \<Rightarrow> params \<Rightarrow> error + 'r heap" where
  "tier_copy env h source_eaf target_eaf source_tier_name target_tier_name override_params =
     bind (tier_params h source_eaf source_tier_name override_params) (\<lambda>params.
     bind (getitem params ''LINGUISTIC_TYPE_REF'') (\<lambda>ling.
     bind (add_tier (h target_eaf) target_tier_name ling None (Some params)) (\<lambda>target.
     let h1 = h(target_eaf := target) in
     bind (get_annotation_data_for_tier env (h1 source_eaf) source_tier_name) (\<lambda>annotations.
     bind (tier_copy_loop (h1 target_eaf) target_tier_name annotations) (\<lambda>target'.
     Inr (h1(target_eaf := target')))))))"

text \<open>\<open>annotation[0]+1\<close> raises \<open>TypeError\<close> on \<open>None\<close>.\<close>

definition plus_one :: "int option \<Rightarrow> error + int option" where
  "plus_one a = (case a of None \<Rightarrow> Inl TypeError | Some t \<Rightarrow> Inr (Some (t + 1)))"

fun ref_tier_copy_loop ::
  "env \<Rightarrow> eaf \<Rightarrow> string \<Rightarrow> string \<Rightarrow> (int option \<times> int option \<times> string \<times> string) list \<Rightarrow>
   error + eaf" where
  "ref_tier_copy_loop env target target_tier_name target_parent_tier_name [] = Inr target"
| "ref_tier_copy_loop env target target_tier_name target_parent_tier_name
     ((start, en, val, parent) # rest) =
     bind (plus_one start) (\<lambda>time.
     bind (add_ref_annotation env target target_tier_name target_parent_tier_name time val None)
       (\<lambda>target'.
     ref_tier_copy_loop env target' target_tier_name target_parent_tier_name rest))"

definition ref_tier_copy ::
  "env \<Rightarrow> 'r heap \<Rightarrow> 'r \<Rightarrow> 'r \<Rightarrow> string \<Rightarrow> string \<Rightarrow> string \<Rightarrow> params \<Rightarrow> error + 'r heap" where
  "ref_tier_copy env h source_eaf target_eaf source_tier_name target_tier_name
     target_parent_tier_name override_params =
     bind (tier_params h source_eaf source_tier_name override_params) (\<lambda>params.
     bind (getitem params ''LINGUISTIC_TYPE_REF'') (\<lambda>ling.
     bind (add_tier (h target_eaf) target_tier_name ling (Some target_parent_tier_name)
             (Some params)) (\<lambda>target.
     let h1 = h(target_eaf := target) in
     bind (ref_annotation_data env (h1 source_eaf) source_tier_name) (\<lambda>annotations.
     bind (ref_tier_copy_loop env (h1 target_eaf) target_tier_name target_parent_tier_name
             annotations) (\<lambda>target'.
     Inr (h1(target_eaf := target')))))))"

fun tier_copy_to_ref_loop ::
  "env \<Rightarrow> eaf \<Rightarrow> string \<Rightarrow> string \<Rightarrow> (int option \<times> int option \<times> string) list \<Rightarrow> error + eaf" where
  "tier_copy_to_ref_loop env target target_tier_name target_parent_tier_name [] = Inr target"
| "tier_copy_to_ref_loop env target target_tier_name target_parent_tier_name
     ((start, en, val) # rest) =
     bind (add_ref_annotation env target target_tier_name target_parent_tier_name start val None)
       (\<lambda>target'.
     tier_copy_to_ref_loop env target' target_tier_name target_parent_tier_name rest)"

definition tier_copy_to_ref ::
  "env \<Rightarrow> 'r heap \<Rightarrow> 'r \<Rightarrow> 'r \<Rightarrow> string \<Rightarrow> string \<Rightarrow> string \<Rightarrow> params \<Rightarrow> error + 'r heap" where
  "tier_copy_to_ref env h source_eaf target_eaf source_tier_name target_tier_name
     target_parent_tier_name override_params =
     bind (tier_params h source_eaf source_tier_name override_params) (\<lambda>params.
     bind (getitem params ''LINGUISTIC_TYPE_REF'') (\<lambda>ling.
     bind (add_tier (h target_eaf) target_tier_name ling (Some target_parent_tier_name)
             (Some params)) (\<lambda>target.
     let h1 = h(target_eaf := target) in
     bind (get_annotation_data_for_tier env (h1 source_eaf) source_tier_name) (\<lambda>annotations.
     bind (tier_copy_to_ref_loop env (h1 target_eaf) target_tier_name target_parent_tier_name
             annotations) (\<lambda>target'.
     Inr (h1(target_eaf := target')))))))"

text \<open>
  The loop of lines 169-178. \<open>previous_parent_id\<close> and \<open>previous_id\<close> start as \<open>None\<close>;
  \<open>annotation[3]\<close> is a string, so that it never equals \<open>None\<close>. The tuples have four
  components, so that line 177 stores \<open>annotation[3]\<close>.
\<close>

fun subdivision_loop ::
  "env \<Rightarrow> eaf \<Rightarrow> string \<Rightarrow> string \<Rightarrow> string option \<Rightarrow> string option \<Rightarrow>
   (int option \<times> int option \<times> string \<times> string) list \<Rightarrow> error + eaf" where
  "subdivision_loop env target target_tier_name target_parent_tier_name
     previous_parent_id previous_id [] = Inr target"
| "subdivision_loop env target target_tier_name target_parent_tier_name
     previous_parent_id previous_id ((start, en, val, parent) # rest) =
     (let prev = (if Some parent = previous_parent_id then previous_id else None) in
      bind (plus_one start) (\<lambda>time.
      bind (add_ref_annotation env target target_tier_name target_parent_tier_name time val prev)
        (\<lambda>target'.
      subdivision_loop env target' target_tier_name target_parent_tier_name
        (Some parent) (Some (format_aid (maxaid target'))) rest)))"

definition copy_symbolic_subdivision_tier ::
  "env \<Rightarrow> 'r heap \<Rightarrow> 'r \<Rightarrow> 'r \<Rightarrow> string \<Rightarrow> string \<Rightarrow> string \<Rightarrow> params \<Rightarrow> error + 'r heap" where
  "copy_symbolic_subdivision_tier env h source_eaf target_eaf source_tier_name target_tier_name
     target_parent_tier_name override_params =
     bind (tier_params h source_eaf source_tier_name override_params) (\<lambda>params.
     bind (getitem params ''LINGUISTIC_TYPE_REF'') (\<lambda>ling.
     bind (add_tier (h target_eaf) target_tier_name ling (Some target_parent_tier_name)
             (Some params)) (\<lambda>target.
     let h1 = h(target_eaf := target) in
     bind (ref_annotation_data env (h1 source_eaf) source_tier_name) (\<lambda>annotations.
     bind (subdivision_loop env (h1 target_eaf) target_tier_name target_parent_tier_name
             None None annotations) (\<lambda>target'.
     Inr (h1(target_eaf := target')))))))"

section \<open>main, lines 290-327: the word/gloss table\<close>

text \<open>The loop of lines 315-317 over \<open>gloss_tier.items()\<close>, appending to \<open>glosses\<close>.\<close>

fun gloss_loop :: "reference_annotation dict \<Rightarrow> string \<Rightarrow> string list \<Rightarrow> string list" where
  "gloss_loop [] morph_id glosses = glosses"
| "gloss_loop ((gloss_id, (ref, val, prev, svg)) # rest) morph_id glosses =
     gloss_loop rest morph_id (if ref = morph_id then glosses @ [val] else glosses)"

text \<open>The loop of lines 312-317 over \<open>morph_tier.items()\<close>.\<close>

fun morph_loop ::
  "reference_annotation dict \<Rightarrow> reference_annotation dict \<Rightarrow> string \<Rightarrow> string list \<Rightarrow> string list" where
  "morph_loop [] gloss_tier word_id glosses = glosses"
| "morph_loop ((morph_id, (ref, val, prev, svg)) # rest) gloss_tier word_id glosses =
     morph_loop rest gloss_tier word_id
       (if ref = word_id then gloss_loop gloss_tier morph_id glosses else glosses)"

text \<open>The loop of lines 308-319 over \<open>word_tier.items()\<close>, appending to \<open>word_gloss\<close>.\<close>

fun word_loop ::
  "reference_annotation dict \<Rightarrow> reference_annotation dict \<Rightarrow> reference_annotation dict \<Rightarrow>
   string \<Rightarrow> (string \<times> string) list \<Rightarrow> (string \<times> string) list" where
  "word_loop [] morph_tier gloss_tier utterance_id word_gloss = word_gloss"
| "word_loop ((word_id, (ref, val, prev, svg)) # rest) morph_tier gloss_tier utterance_id word_gloss =
     word_loop rest morph_tier gloss_tier utterance_id
       (if ref = utterance_id
        then word_gloss @ [(val, join ''-'' (morph_loop morph_tier gloss_tier word_id []))]
        else word_gloss)"

text \<open>
  The body of the loop of line 304 for one utterance: the list
  \<open>[utt_start, word_dur, [word, gloss], ...]\<close> is the triple
  \<open>(utt_start, word_dur, [(word, gloss), ...])\<close>. A time slot without a value is \<open>None\<close>,
  and subtracting it raises \<open>TypeError\<close>.
\<close>

type_synonym entry = "int \<times> int \<times> (string \<times> string) list"

definition utterance_entry ::
  "(int \<Rightarrow> int \<Rightarrow> int) \<Rightarrow> int option dict \<Rightarrow> reference_annotation dict \<Rightarrow>
   reference_annotation dict \<Rightarrow> reference_annotation dict \<Rightarrow> string \<Rightarrow> aligned_annotation \<Rightarrow>
   error + entry" where
  "utterance_entry fq eaf_2_timeslots word_tier morph_tier gloss_tier utterance_id utterance =
     (case utterance of (begin_ts, end_ts, val, svg) \<Rightarrow>
        bind (getitem eaf_2_timeslots begin_ts) (\<lambda>utt_start.
        bind (getitem eaf_2_timeslots end_ts) (\<lambda>utt_end.
        let word_gloss = word_loop word_tier morph_tier gloss_tier utterance_id [];
            num_segments = length word_gloss
        in (case (utt_end, utt_start) of
              (Some e, Some s) \<Rightarrow>
                bind (int_truediv fq (e - s) (int num_segments)) (\<lambda>word_dur.
                Inr (s, word_dur, word_gloss))
            | _ \<Rightarrow> Inl TypeError))))"

text \<open>The loop of lines 304-327, filling \<open>new_dict\<close>.\<close>

fun utterance_loop ::
  "(int \<Rightarrow> int \<Rightarrow> int) \<Rightarrow> int option dict \<Rightarrow> reference_annotation dict \<Rightarrow>
   reference_annotation dict \<Rightarrow> reference_annotation dict \<Rightarrow> aligned_annotation dict \<Rightarrow>
   entry dict \<Rightarrow> error + entry dict" where
  "utterance_loop fq ts word_tier morph_tier gloss_tier [] new_dict = Inr new_dict"
| "utterance_loop fq ts word_tier morph_tier gloss_tier ((utterance_id, utterance) # rest) new_dict =
     bind (utterance_entry fq ts word_tier morph_tier gloss_tier utterance_id utterance)
       (\<lambda>word_gloss. utterance_loop fq ts word_tier morph_tier gloss_tier rest
          (AList.update utterance_id word_gloss new_dict))"

text \<open>
  Lines 290-327 on the second source document, with the tier names of lines 195-205 as
  arguments.
\<close>

definition build_new_dict ::
  "(int \<Rightarrow> int \<Rightarrow> int) \<Rightarrow> eaf \<Rightarrow> string \<Rightarrow> string \<Rightarrow> string \<Rightarrow> string \<Rightarrow> error + entry dict" where
  "build_new_dict fq eaf_2 utterance_id_source_tier word_source_tier morph_source_tier gloss_source_tier =
     bind (getitem (tiers eaf_2) word_source_tier) (\<lambda>wt.
     bind (getitem (tiers eaf_2) morph_source_tier) (\<lambda>mt.
     bind (getitem (tiers eaf_2) gloss_source_tier) (\<lambda>gt.
     bind (getitem (tiers eaf_2) utterance_id_source_tier) (\<lambda>ut.
       utterance_loop fq (timeslots eaf_2) (reference_annotations wt) (reference_annotations mt)
         (reference_annotations gt) (aligned_annotations ut) []))))"

text \<open>
  Lines 336-351 compute \<open>word_start = utt_start + word_dur * count\<close> for each word, with
  \<open>count\<close> running from 0. \<open>word_starts\<close> lists the values the variable takes in the loop
  of line 338.
\<close>

definition word_start :: "int \<Rightarrow> int \<Rightarrow> nat \<Rightarrow> int" where
  "word_start utt_start word_dur count = utt_start + word_dur * int count"


section \<open>main, lines 331-351: the gloss tier\<close>

text \<open>
  The loop of lines 346-349 over the items of the target word tier \<open>tier2\<close>: each
  annotation whose value is the word gets a new annotation in the gloss tier \<open>id_tier\<close>,
  written into the tier's dictionary directly. The items are those of the word tier when
  the loop starts; \<open>id_tier\<close> and \<open>tier2\<close> are different tiers in \<open>main\<close>, so that the loop
  does not change the dictionary it reads.
\<close>

fun match_loop ::
  "eaf \<Rightarrow> string \<Rightarrow> reference_annotation dict \<Rightarrow> string \<Rightarrow> string \<Rightarrow> error + eaf" where
  "match_loop eaf_3 id_tier [] word val = Inr eaf_3"
| "match_loop eaf_3 id_tier ((aid, (ref_id, v, p, s)) # rest) word val =
     (if word = v
      then bind (generate_annotation_id eaf_3) (\<lambda>(new_aid, e1).
           bind (getitem (tiers e1) id_tier) (\<lambda>t.
           match_loop
             (e1\<lparr>tiers := AList.update id_tier
                   (t\<lparr>reference_annotations :=
                        AList.update new_aid (aid, val, None, None) (reference_annotations t)\<rparr>)
                   (tiers e1)\<rparr>)
             id_tier rest word val))
      else match_loop eaf_3 id_tier rest word val)"

text \<open>The loop of lines 338-351 over the pairs of one utterance.\<close>

fun ann_loop ::
  "eaf \<Rightarrow> string \<Rightarrow> string \<Rightarrow> int \<Rightarrow> int \<Rightarrow> nat \<Rightarrow> (string \<times> string) list \<Rightarrow> error + eaf" where
  "ann_loop eaf_3 id_tier tier2 utt_start word_dur count [] = Inr eaf_3"
| "ann_loop eaf_3 id_tier tier2 utt_start word_dur count ((word, val) # rest) =
     (let start = word_start utt_start word_dur count in
      bind (getitem (tiers eaf_3) tier2) (\<lambda>t2.
      bind (match_loop eaf_3 id_tier (reference_annotations t2) word val) (\<lambda>e.
      ann_loop e id_tier tier2 utt_start word_dur (count + 1) rest)))"

text \<open>The loop of lines 333-351 over \<open>new_dict.items()\<close>.\<close>

fun new_dict_loop :: "eaf \<Rightarrow> string \<Rightarrow> string \<Rightarrow> entry dict \<Rightarrow> error + eaf" where
  "new_dict_loop eaf_3 id_tier tier2 [] = Inr eaf_3"
| "new_dict_loop eaf_3 id_tier tier2 ((ann_id, (utt_start, word_dur, anns)) # rest) =
     bind (ann_loop eaf_3 id_tier tier2 utt_start word_dur 0 anns) (\<lambda>e.
     new_dict_loop e id_tier tier2 rest)"

section \<open>main\<close>

definition utterance_id_source_tier :: string where
  "utterance_id_source_tier = ''A_phrase-segnum-en''"
definition utterance_id_target_tier :: string where
  "utterance_id_target_tier = ''utterance_id''"
definition utterance_source_tier :: string where
  "utterance_source_tier = ''DDD_Transcription-txt-qaa-fonipa-x-eib''"
definition utterance_target_tier :: string where
  "utterance_target_tier = ''utterance''"
definition utterance_translation_source_tier :: string where
  "utterance_translation_source_tier = ''DDD_Translation-gls-en''"
definition utterance_translation_target_tier :: string where
  "utterance_translation_target_tier = ''utterance_translation''"
definition word_source_tier :: string where
  "word_source_tier = ''A_word-txt-qaa-fonipa-x-eib''"
definition word_target_tier :: string where
  "word_target_tier = ''grammatical_words''"
definition morph_source_tier :: string where
  "morph_source_tier = ''A_morph-txt-qaa-fonipa-x-eib''"
definition gloss_source_tier :: string where
  "gloss_source_tier = ''A_morph-gls-en''"
definition gloss_target_tier :: string where
  "gloss_target_tier = ''gloss''"

definition utterance_id_tier_params :: params where
  "utterance_id_tier_params =
     [(''LINGUISTIC_TYPE_REF'', Some ''default-lt''),
      (''TIER_ID'', Some utterance_id_target_tier)]"

definition blank_type_params :: params where
  "blank_type_params =
     [(''LINGUISTIC_TYPE_ID'', Some ''Blank''), (''CONSTRAINTS'', Some ''Symbolic_Association''),
      (''TIME_ALIGNABLE'', Some ''false'')]"

definition utterance_tier_params :: params where
  "utterance_tier_params =
     [(''LINGUISTIC_TYPE_REF'', Some ''Blank''), (''PARENT_REF'', Some utterance_id_target_tier),
      (''TIER_ID'', Some utterance_target_tier)]"

definition utterance_translation_tier_params :: params where
  "utterance_translation_tier_params =
     [(''LINGUISTIC_TYPE_REF'', Some ''Blank''), (''PARENT_REF'', Some utterance_target_tier),
      (''TIER_ID'', Some utterance_translation_target_tier)]"

definition word_type_params :: params where
  "word_type_params =
     [(''LINGUISTIC_TYPE_ID'', Some ''word''), (''CONSTRAINTS'', Some ''Symbolic_Subdivision''),
      (''TIME_ALIGNABLE'', Some ''false'')]"

definition word_tier_params :: params where
  "word_tier_params =
     [(''LINGUISTIC_TYPE_REF'', Some ''word''), (''PARENT_REF'', Some utterance_target_tier),
      (''TIER_ID'', Some word_target_tier)]"

definition gloss_tier_params :: params where
  "gloss_tier_params =
     [(''LINGUISTIC_TYPE_REF'', Some ''Blank''), (''PARENT_REF'', Some word_target_tier),
      (''TIER_ID'', Some gloss_target_tier)]"

text \<open>
  The three objects of \<open>main\<close>. \<open>file_1\<close> and \<open>file_2\<close> are the documents that \<open>Eaf(file_1)\<close>
  and \<open>Eaf(file_2)\<close> load; \<open>main\<close> returns the heap it leaves when it calls \<open>to_file\<close>, where
  \<open>Eaf_3\<close> is the document written.
\<close>

datatype var = Eaf_1 | Eaf_2 | Eaf_3

text \<open>Lines 207-278: the new document and the four tiers copied into it.\<close>

definition copy_tiers :: "env \<Rightarrow> string dict \<Rightarrow> eaf \<Rightarrow> eaf \<Rightarrow> error + var heap" where
  "copy_tiers env adoc file_1 file_2 =
     bind (Eaf adoc) (\<lambda>new.
     let h = (\<lambda>r. case r of Eaf_1 \<Rightarrow> file_1 | Eaf_2 \<Rightarrow> file_2 | Eaf_3 \<Rightarrow> new) in
     bind (remove_tier (h Eaf_3) ''default'') (\<lambda>e.
     let h = h(Eaf_3 := e) in
     bind (tier_copy env h Eaf_2 Eaf_3 utterance_id_source_tier utterance_id_target_tier
             utterance_id_tier_params) (\<lambda>h.
     let h = h(Eaf_3 := add_linguistic_type (h Eaf_3) ''Blank'' blank_type_params) in
     bind (tier_copy_to_ref env h Eaf_1 Eaf_3 utterance_source_tier utterance_target_tier
             utterance_id_target_tier utterance_tier_params) (\<lambda>h.
     bind (ref_tier_copy env h Eaf_1 Eaf_3 utterance_translation_source_tier
             utterance_translation_target_tier utterance_target_tier
             utterance_translation_tier_params) (\<lambda>h.
     let h = h(Eaf_3 := add_linguistic_type (h Eaf_3) ''word'' word_type_params) in
     copy_symbolic_subdivision_tier env h Eaf_2 Eaf_3 word_source_tier word_target_tier
       utterance_id_target_tier word_tier_params)))))"

text \<open>Lines 280-351: the word/gloss table of \<open>Eaf_2\<close> and the gloss tier of \<open>Eaf_3\<close>.\<close>

definition add_gloss_tier :: "env \<Rightarrow> var heap \<Rightarrow> error + var heap" where
  "add_gloss_tier env h =
     bind (build_new_dict (float_quot env) (h Eaf_2) utterance_id_source_tier word_source_tier
             morph_source_tier gloss_source_tier) (\<lambda>new_dict.
     bind (add_tier (h Eaf_3) gloss_target_tier (Some ''Blank'') (Some word_target_tier)
             (Some gloss_tier_params)) (\<lambda>e.
     bind (new_dict_loop e gloss_target_tier word_target_tier new_dict) (\<lambda>e'.
     Inr (h(Eaf_3 := e')))))"

definition main :: "env \<Rightarrow> string dict \<Rightarrow> eaf \<Rightarrow> eaf \<Rightarrow> error + var heap" where
  "main env adoc file_1 file_2 = bind (copy_tiers env adoc file_1 file_2) (add_gloss_tier env)"

section \<open>The specification's reading of the word/gloss table\<close>

text \<open>
  The children of an annotation are the reference annotations of a tier that name it as
  their parent, in tier order. The gloss values of a word are the values of the gloss
  annotations under each of its morphs, morph by morph.
\<close>

definition children :: "reference_annotation dict \<Rightarrow> string \<Rightarrow> reference_annotation dict" where
  "children t parent_id = filter (\<lambda>(aid, (ref, val, prev, svg)). ref = parent_id) t"

definition annotation_value :: "string \<times> reference_annotation \<Rightarrow> string" where
  "annotation_value a = (case a of (aid, (ref, val, prev, svg)) \<Rightarrow> val)"

definition morph_gloss_values ::
  "reference_annotation dict \<Rightarrow> reference_annotation dict \<Rightarrow> string \<Rightarrow> string list" where
  "morph_gloss_values morph_tier gloss_tier word_id =
     concat (map (\<lambda>morph. map annotation_value (children gloss_tier (fst morph)))
                 (children morph_tier word_id))"

section \<open>Well-formedness used in the statements\<close>

text \<open>
  A time-aligned annotation \<open>(start, end, value)\<close> that \<open>add_annotation\<close> accepts: both
  times are present, the start is not negative and lies strictly before the end.
\<close>

definition valid_span :: "int option \<times> int option \<times> string \<Rightarrow> bool" where
  "valid_span a = (case a of (Some s, Some f, v) \<Rightarrow> 0 \<le> s \<and> s < f | _ \<Rightarrow> False)"

text \<open>
  An aligned annotation whose identifier and time slots were generated with counters not
  above \<open>ma\<close> and \<open>mt\<close>.
\<close>

definition entry_below :: "nat \<Rightarrow> nat \<Rightarrow> string \<times> aligned_annotation \<Rightarrow> bool" where
  "entry_below ma mt x =
     ((\<exists>n\<le>ma. fst x = format_aid n) \<and> (\<exists>k\<le>mt. fst (snd x) = format_ts k) \<and>
      (\<exists>k\<le>mt. fst (snd (snd x)) = format_ts k))"

text \<open>
  The components of a reference annotation of a tier and of a tuple of
  \<open>get_ref_annotation_data_for_tier\<close>. The fourth component of the tuple is what the
  script keeps in \<open>previous_parent_id\<close>; the library puts the text value of the parent
  annotation there.
\<close>

definition annotation_prev :: "string \<times> reference_annotation \<Rightarrow> string option" where
  "annotation_prev a = (case a of (aid, (ref, val, prev, svg)) \<Rightarrow> prev)"

definition data_value :: "int option \<times> int option \<times> string \<times> string \<Rightarrow> string" where
  "data_value a = (case a of (start, en, val, parent) \<Rightarrow> val)"

definition data_parent :: "int option \<times> int option \<times> string \<times> string \<Rightarrow> string" where
  "data_parent a = (case a of (start, en, val, parent) \<Rightarrow> parent)"

text \<open>
  The previous-link that the loop of lines 169-178 gives at position \<open>i\<close> of a copied tier,
  given the fourth components \<open>keys\<close> of the source tuples and the identifiers generated
  for the copies: the identifier generated just before when the key is that of the
  preceding source tuple, none otherwise. \<open>ppid\<close> and \<open>pid\<close> are the key and the identifier
  that precede position 0, if any.
\<close>

definition link_at ::
  "string option \<Rightarrow> string option \<Rightarrow> string list \<Rightarrow> string list \<Rightarrow> nat \<Rightarrow> string option" where
  "link_at ppid pid keys ids i =
     (if i = 0 then (if Some (keys ! 0) = ppid then pid else None)
      else if keys ! i = keys ! (i - 1) then Some (ids ! (i - 1)) else None)"

text \<open>
  The annotations of the word tier whose value is a given word, the annotations the gloss
  tier receives for one pair \<open>(word, gloss)\<close>, one per match, and the pairs of the table
  in the order in which lines 333-351 visit them.
\<close>

definition matching :: "reference_annotation dict \<Rightarrow> string \<Rightarrow> reference_annotation dict" where
  "matching word_tier word = filter (\<lambda>a. annotation_value a = word) word_tier"

definition emitted :: "reference_annotation dict \<Rightarrow> string \<times> string \<Rightarrow> reference_annotation list" where
  "emitted word_tier p = map (\<lambda>m. (fst m, snd p, None, None)) (matching word_tier (fst p))"

definition pairs_of :: "entry dict \<Rightarrow> (string \<times> string) list" where
  "pairs_of new_dict = concat (map (\<lambda>x. snd (snd (snd x))) new_dict)"

text \<open>The identifiers of a tier were generated with a counter not above \<open>n\<close>.\<close>

definition keys_below :: "nat \<Rightarrow> 'v dict \<Rightarrow> bool" where
  "keys_below n d = (\<forall>x \<in> set d. \<exists>k\<le>n. fst x = format_aid k)"

section \<open>Example documents\<close>

text \<open>
  An instance of the parameters, after the library. \<open>add_ref_annotation\<close> raises
  \<open>ValueError\<close> when \<open>id_tier\<close> holds aligned annotations; it refers to the first
  annotation of the tier \<open>tier2\<close> it is given whose interval \<open>begin <= time and end >= time\<close>
  contains the time, where comparing with a missing time raises \<open>TypeError\<close>, and raises
  \<open>ValueError\<close> when there is none. The interval of a reference annotation of \<open>tier2\<close> is
  that of the aligned annotation it refers to (the patched library of line 15 searches
  reference tiers as well). \<open>get_ref_annotation_data_for_tier\<close> gives,
  for each reference annotation, the times and the text value of the aligned annotation it
  refers to: the fourth component of a tuple is the value of the parent, not its
  identifier. Both resolve one level of reference, which is all the examples need.
\<close>

definition contains_time :: "int option \<Rightarrow> int option \<Rightarrow> int option \<Rightarrow> error + bool" where
  "contains_time b f time =
     (case (b, time) of
        (Some s, Some x) \<Rightarrow>
          if s \<le> x then (case f of Some en \<Rightarrow> Inr (en \<ge> x) | None \<Rightarrow> Inl TypeError)
          else Inr False
      | _ \<Rightarrow> Inl TypeError)"

fun search_aligned ::
  "int option dict \<Rightarrow> aligned_annotation dict \<Rightarrow> int option \<Rightarrow> error + string option" where
  "search_aligned ts [] time = Inr None"
| "search_aligned ts ((aid, (b, f, val, svg)) # rest) time =
     bind (getitem ts b) (\<lambda>begin.
     bind (getitem ts f) (\<lambda>en.
     bind (contains_time begin en time) (\<lambda>hit.
     if hit then Inr (Some aid) else search_aligned ts rest time)))"

definition all_aligned :: "eaf \<Rightarrow> aligned_annotation dict" where
  "all_aligned e = concat (map (\<lambda>(name, t). aligned_annotations t) (tiers e))"

fun search_refs ::
  "eaf \<Rightarrow> reference_annotation dict \<Rightarrow> int option \<Rightarrow> error + string option" where
  "search_refs e [] time = Inr None"
| "search_refs e ((aid, (ref, val, prev, svg)) # rest) time =
     bind (getitem (all_aligned e) ref) (\<lambda>(b, f, pval, psvg).
     bind (getitem (timeslots e) b) (\<lambda>begin.
     bind (getitem (timeslots e) f) (\<lambda>en.
     bind (contains_time begin en time) (\<lambda>hit.
     if hit then Inr (Some aid) else search_refs e rest time))))"

definition example_find_parent :: "eaf \<Rightarrow> string \<Rightarrow> string \<Rightarrow> int option \<Rightarrow> error + string" where
  "example_find_parent e id_tier tier2 time =
     bind (getitem (tiers e) id_tier) (\<lambda>t.
     if aligned_annotations t \<noteq> [] then Inl ValueError
     else
       bind (getitem (tiers e) tier2) (\<lambda>t2.
       bind (search_aligned (timeslots e) (aligned_annotations t2) time) (\<lambda>found.
       case found of
         Some ann \<Rightarrow> Inr ann
       | None \<Rightarrow>
           bind (search_refs e (reference_annotations t2) time) (\<lambda>found.
           case found of Some ann \<Rightarrow> Inr ann | None \<Rightarrow> Inl ValueError))))"

fun parent_data ::
  "eaf \<Rightarrow> reference_annotation dict \<Rightarrow> error + (int option \<times> int option \<times> string \<times> string) list" where
  "parent_data e [] = Inr []"
| "parent_data e ((aid, (ref, val, prev, svg)) # rest) =
     bind (getitem (all_aligned e) ref) (\<lambda>(b, f, pval, psvg).
     bind (getitem (timeslots e) b) (\<lambda>start.
     bind (getitem (timeslots e) f) (\<lambda>en.
     bind (parent_data e rest) (\<lambda>l. Inr ((start, en, val, pval) # l)))))"

definition example_env :: env where
  "example_env =
     \<lparr>find_parent = example_find_parent,
      ref_annotation_data = (\<lambda>e id_tier.
         bind (getitem (tiers e) id_tier) (\<lambda>t. parent_data e (reference_annotations t))),
      float_quot = (\<lambda>a b. 0)\<rparr>"

text \<open>
  Two utterances, \<open>[0, 500]\<close> and \<open>[1000, 4000]\<close>, that do not touch: \<open>_tier_copy_to_ref\<close>
  looks a parent up at the start of an utterance, which the end of a touching predecessor
  would contain as well. The word \<open>no\<close> occurs in both utterances.
\<close>

definition example_file_1 :: eaf where
  "example_file_1 =
     \<lparr>adocument = [], maxts = 4, maxaid = 4, 
      annotations = [(''a1'', ''DDD_Transcription-txt-qaa-fonipa-x-eib''),
                     (''a2'', ''DDD_Transcription-txt-qaa-fonipa-x-eib''),
                     (''a3'', ''DDD_Translation-gls-en''), (''a4'', ''DDD_Translation-gls-en'')],
      linguistic_types = [(''default-lt'', [(''LINGUISTIC_TYPE_ID'', Some ''default-lt'')])],
      tiers =
        [(''DDD_Transcription-txt-qaa-fonipa-x-eib'',
          \<lparr>aligned_annotations = [(''a1'', (''ts1'', ''ts2'', ''no'', None)),
                                  (''a2'', (''ts3'', ''ts4'', ''no went eh'', None))],
           reference_annotations = [],
           attributes = [(''TIER_ID'', Some ''DDD_Transcription-txt-qaa-fonipa-x-eib'')],
           ordinal = 0\<rparr>),
         (''DDD_Translation-gls-en'',
          \<lparr>aligned_annotations = [],
           reference_annotations = [(''a3'', (''a1'', ''not'', None, None)),
                                    (''a4'', (''a2'', ''did not go'', None, None))],
           attributes = [(''TIER_ID'', Some ''DDD_Translation-gls-en'')],
           ordinal = 1\<rparr>)],
      timeslots = [(''ts1'', Some 0), (''ts2'', Some 500), (''ts3'', Some 1000), (''ts4'', Some 4000)]\<rparr>"

definition example_file_2 :: eaf where
  "example_file_2 =
     \<lparr>adocument = [], maxts = 4, maxaid = 12,
      annotations = [],
      linguistic_types = [(''default-lt'', [(''LINGUISTIC_TYPE_ID'', Some ''default-lt'')])],
      tiers =
        [(''A_phrase-segnum-en'',
          \<lparr>aligned_annotations = [(''u1'', (''ts1'', ''ts2'', ''1'', None)),
                                  (''u2'', (''ts3'', ''ts4'', ''2'', None))],
           reference_annotations = [],
           attributes = [(''TIER_ID'', Some ''A_phrase-segnum-en'')], ordinal = 0\<rparr>),
         (''A_word-txt-qaa-fonipa-x-eib'',
          \<lparr>aligned_annotations = [],
           reference_annotations =
             [(''w0'', (''u1'', ''no'', None, None)),
              (''w1'', (''u2'', ''no'', None, None)),
              (''w2'', (''u2'', ''went'', Some ''w1'', None)),
              (''w3'', (''u2'', ''eh'', Some ''w2'', None))],
           attributes = [(''TIER_ID'', Some ''A_word-txt-qaa-fonipa-x-eib'')], ordinal = 1\<rparr>),
         (''A_morph-txt-qaa-fonipa-x-eib'',
          \<lparr>aligned_annotations = [],
           reference_annotations =
             [(''m0'', (''w0'', ''no'', None, None)),
              (''m1'', (''w1'', ''no'', None, None)),
              (''m2'', (''w2'', ''wen'', None, None)),
              (''m3'', (''w2'', ''t'', Some ''m2'', None))],
           attributes = [(''TIER_ID'', Some ''A_morph-txt-qaa-fonipa-x-eib'')], ordinal = 2\<rparr>),
         (''A_morph-gls-en'',
          \<lparr>aligned_annotations = [],
           reference_annotations =
             [(''g0'', (''m0'', ''NEG'', None, None)),
              (''g1'', (''m1'', ''NEG'', None, None)),
              (''g2'', (''m2'', ''go'', None, None)),
              (''g3'', (''m3'', ''PST'', None, None))],
           attributes = [(''TIER_ID'', Some ''A_morph-gls-en'')], ordinal = 3\<rparr>)],
      timeslots = [(''ts1'', Some 0), (''ts2'', Some 500), (''ts3'', Some 1000), (''ts4'', Some 4000)]\<rparr>"

text \<open>
  The second document with both utterances numbered \<open>1\<close>: the words still belong to
  \<open>u1, u2, u2, u2\<close>.
\<close>

definition example_same_value :: eaf where
  "example_same_value =
     example_file_2\<lparr>tiers := AList.update utterance_id_source_tier
        \<lparr>aligned_annotations = [(''u1'', (''ts1'', ''ts2'', ''1'', None)),
                                (''u2'', (''ts3'', ''ts4'', ''1'', None))],
         reference_annotations = [],
         attributes = [(''TIER_ID'', Some ''A_phrase-segnum-en'')], ordinal = 0\<rparr>
        (tiers example_file_2)\<rparr>"

definition example_heap :: "var heap" where
  "example_heap =
     (\<lambda>r. case r of Eaf_1 \<Rightarrow> example_file_1 | Eaf_2 \<Rightarrow> example_file_2
        | Eaf_3 \<Rightarrow> \<lparr>adocument = [], maxts = 1, maxaid = 1, annotations = [],
             linguistic_types = [(''default-lt'', [(''LINGUISTIC_TYPE_ID'', Some ''default-lt'')])],
             tiers = [], timeslots = []\<rparr>)"

definition gloss_step :: "string \<Rightarrow> eaf \<Rightarrow> tier \<Rightarrow> eaf \<Rightarrow> tier \<Rightarrow> bool" where
  "gloss_step id_tier e tg e' tg' =
     (map_of (tiers e') = (map_of (tiers e))(id_tier \<mapsto> tg') \<and>
      map fst (tiers e') = map fst (tiers e) \<and>
      aligned_annotations tg' = aligned_annotations tg \<and> attributes tg' = attributes tg \<and>
      keys_below (maxaid e') (reference_annotations tg') \<and> 0 < maxaid e' \<and>
      maxaid e \<le> maxaid e' \<and> linguistic_types e' = linguistic_types e \<and> timeslots e' = timeslots e \<and>
      annotations e' = annotations e \<and> maxts e' = maxts e \<and> adocument e' = adocument e)"

definition example_word_tier :: tier where
  "example_word_tier =
     \<lparr>aligned_annotations = [],
      reference_annotations =
        [(''a3'', (''a2'', ''no'', None, None)), (''a4'', (''a2'', ''went'', Some ''a3'', None)),
         (''a5'', (''a2'', ''no'', Some ''a4'', None))],
      attributes = [], ordinal = 1\<rparr>"

definition example_gloss_tier :: tier where
  "example_gloss_tier =
     \<lparr>aligned_annotations = [], reference_annotations = [], attributes = [], ordinal = 2\<rparr>"

definition example_target :: eaf where
  "example_target =
     \<lparr>adocument = [], maxts = 3, maxaid = 5, annotations = [],
      linguistic_types = [(''default-lt'', [(''LINGUISTIC_TYPE_ID'', Some ''default-lt'')])],
      tiers =
        [(''utterance_id'',
          \<lparr>aligned_annotations = [(''a2'', (''ts2'', ''ts3'', ''1'', None))],
           reference_annotations = [], attributes = [], ordinal = 0\<rparr>),
         (''grammatical_words'', example_word_tier),
         (''gloss'', example_gloss_tier)],
      timeslots = [(''ts2'', Some 0), (''ts3'', Some 1000)]\<rparr>"

definition tier_step :: "string \<Rightarrow> eaf \<Rightarrow> eaf \<Rightarrow> bool" where
  "tier_step tn e e' =
     (map fst (tiers e') = map fst (tiers e) \<and>
      (\<forall>k. k \<noteq> tn \<longrightarrow> map_of (tiers e') k = map_of (tiers e) k) \<and>
      map_option attributes (map_of (tiers e') tn) = map_option attributes (map_of (tiers e) tn) \<and>
      linguistic_types e' = linguistic_types e \<and> adocument e' = adocument e \<and>
      maxaid e \<le> maxaid e')"

definition tier_added :: "string \<Rightarrow> params \<Rightarrow> eaf \<Rightarrow> eaf \<Rightarrow> bool" where
  "tier_added tn ps e e' =
     (map fst (tiers e') =
        (if tn \<in> set (map fst (tiers e)) then map fst (tiers e) else map fst (tiers e) @ [tn]) \<and>
      (\<forall>k. k \<noteq> tn \<longrightarrow> map_of (tiers e') k = map_of (tiers e) k) \<and>
      map_option attributes (map_of (tiers e') tn) = Some ps \<and>
      linguistic_types e' = linguistic_types e \<and> adocument e' = adocument e \<and>
      maxaid e \<le> maxaid e')"

definition new_document :: "string dict \<Rightarrow> eaf" where
  "new_document adoc =
     \<lparr>adocument = adoc, maxts = 1, maxaid = 1, annotations = [],
      linguistic_types =
        [(''default-lt'',
          [(''LINGUISTIC_TYPE_ID'', Some ''default-lt''), (''TIME_ALIGNABLE'', Some ''true''),
           (''GRAPHIC_REFERENCES'', Some ''false''), (''CONSTRAINTS'', None)])],
      tiers = [], timeslots = []\<rparr>"





section \<open>Exceptions and dictionaries\<close>

lemma bind_Inr_iff: "bind m f = Inr y \<longleftrightarrow> (\<exists>x. m = Inr x \<and> f x = Inr y)"
  by (cases m) (simp_all add: bind_def)

lemma bind_Inl_iff: "bind m f = Inl e \<longleftrightarrow> (m = Inl e \<or> (\<exists>x. m = Inr x \<and> f x = Inl e))"
  by (cases m) (simp_all add: bind_def)

lemma getitem_Inr_iff: "getitem d k = Inr v \<longleftrightarrow> map_of d k = Some v"
  by (simp add: getitem_def split: option.splits)

section \<open>The word/gloss table\<close>

lemma gloss_loop_eq:
  "gloss_loop gt m acc = acc @ map annotation_value (children gt m)"
  by (induction gt m acc rule: gloss_loop.induct) (simp_all add: children_def annotation_value_def)

lemma morph_loop_eq:
  "morph_loop mt gt w acc = acc @ morph_gloss_values mt gt w"
  by (induction mt gt w acc rule: morph_loop.induct)
     (simp_all add: morph_gloss_values_def children_def gloss_loop_eq)

lemma word_loop_eq:
  "word_loop wt mt gt u acc =
     acc @ map (\<lambda>word. (annotation_value word, join ''-'' (morph_gloss_values mt gt (fst word))))
               (children wt u)"
  by (induction wt mt gt u acc rule: word_loop.induct)
     (simp_all add: children_def morph_loop_eq annotation_value_def)

text \<open>
  C3. The pairs collected for an utterance are its words in tier order, each with the
  gloss values of its morphs joined by \<open>-\<close> in morph order; the gloss computed for a
  word is that joined string, and it is empty for a word without morphs.
\<close>

theorem gloss_concatenation:
  "word_loop word_tier morph_tier gloss_tier utterance_id [] =
     map (\<lambda>word. (annotation_value word,
                     join ''-'' (morph_gloss_values morph_tier gloss_tier (fst word))))
         (children word_tier utterance_id)
   \<and> join ''-'' (morph_loop morph_tier gloss_tier word_id []) =
       join ''-'' (morph_gloss_values morph_tier gloss_tier word_id)
   \<and> (children morph_tier word_id = [] \<longrightarrow>
        join ''-'' (morph_loop morph_tier gloss_tier word_id []) = [])"
  by (simp add: word_loop_eq morph_loop_eq morph_gloss_values_def)

theorem gloss_concatenation_witness:
  "word_loop
     [(''w1'', (''u2'', ''no'', None, None)), (''w2'', (''u2'', ''went'', Some ''w1'', None)),
      (''w3'', (''u2'', ''eh'', Some ''w2'', None)), (''w4'', (''u1'', ''hi'', None, None))]
     [(''m1'', (''w1'', ''n'', None, None)), (''m2'', (''w2'', ''g'', None, None)),
      (''m3'', (''w2'', ''d'', Some ''m2'', None))]
     [(''g1'', (''m1'', ''NEG'', None, None)), (''g2'', (''m2'', ''go'', None, None)),
      (''g3'', (''m3'', ''PST'', None, None))]
     ''u2'' []
   = [(''no'', ''NEG''), (''went'', ''go-PST''), (''eh'', [])]
   \<and> children [(''m1'', (''w1'', ''n'', None, None)), (''m2'', (''w2'', ''g'', None, None)),
      (''m3'', (''w2'', ''d'', Some ''m2'', None))] ''w3'' = []
   \<and> join ''-'' (morph_loop
       [(''m1'', (''w1'', ''n'', None, None)), (''m2'', (''w2'', ''g'', None, None)),
        (''m3'', (''w2'', ''d'', Some ''m2'', None))]
       [(''g1'', (''m1'', ''NEG'', None, None)), (''g2'', (''m2'', ''go'', None, None)),
        (''g3'', (''m3'', ''PST'', None, None))] ''w3'' []) = []"
  using gloss_concatenation [of
     "[(''w1'', (''u2'', ''no'', None, None)), (''w2'', (''u2'', ''went'', Some ''w1'', None)),
      (''w3'', (''u2'', ''eh'', Some ''w2'', None)), (''w4'', (''u1'', ''hi'', None, None))]"
     "[(''m1'', (''w1'', ''n'', None, None)), (''m2'', (''w2'', ''g'', None, None)),
      (''m3'', (''w2'', ''d'', Some ''m2'', None))]"
     "[(''g1'', (''m1'', ''NEG'', None, None)), (''g2'', (''m2'', ''go'', None, None)),
      (''g3'', (''m3'', ''PST'', None, None))]"
     "''u2''" "''w3''"]
  by (simp add: children_def morph_gloss_values_def annotation_value_def)

section \<open>Generated identifiers and the time-aligned copy\<close>

lemma digit_char_inj: "a < 10 \<Longrightarrow> b < 10 \<Longrightarrow> digit_char a = digit_char b \<Longrightarrow> a = b"
proof -
  assume a: "a < 10" "b < 10" "digit_char a = digit_char b"
  then have "(of_char (char_of (48 + a)) :: nat) = of_char (char_of (48 + b))"
    by (simp add: digit_char_def)
  with a show ?thesis by simp
qed

lemma str_nat_nonempty: "str_nat n \<noteq> []"
  by (subst str_nat.simps) simp

lemma str_nat_inj: "str_nat m = str_nat n \<Longrightarrow> m = n"
proof (induction m arbitrary: n rule: str_nat.induct)
  case (1 m)
  show ?case
  proof (cases "m < 10")
    case True
    then have m: "str_nat m = [digit_char m]" by (subst str_nat.simps) simp
    show ?thesis
    proof (cases "n < 10")
      case True
      then have "str_nat n = [digit_char n]" by (subst str_nat.simps) simp
      with m "1.prems" \<open>m < 10\<close> True show ?thesis by (simp add: digit_char_inj)
    next
      case False
      then have "str_nat n = str_nat (n div 10) @ [digit_char (n mod 10)]"
        by (subst str_nat.simps) simp
      with m "1.prems" str_nat_nonempty [of "n div 10"] show ?thesis by simp
    qed
  next
    case False
    then have m: "str_nat m = str_nat (m div 10) @ [digit_char (m mod 10)]"
      by (subst str_nat.simps) simp
    show ?thesis
    proof (cases "n < 10")
      case True
      then have "str_nat n = [digit_char n]" by (subst str_nat.simps) simp
      with m "1.prems" str_nat_nonempty [of "m div 10"] show ?thesis by simp
    next
      case n: False
      then have "str_nat n = str_nat (n div 10) @ [digit_char (n mod 10)]"
        by (subst str_nat.simps) simp
      with m "1.prems" have eq: "str_nat (m div 10) = str_nat (n div 10)"
        and d: "digit_char (m mod 10) = digit_char (n mod 10)" by simp_all
      from "1.IH" [OF False eq] have "m div 10 = n div 10" .
      moreover from d have "m mod 10 = n mod 10" by (simp add: digit_char_inj)
      ultimately show ?thesis by (metis div_mult_mod_eq)
    qed
  qed
qed

lemma str_nat_eq_iff [simp]: "(str_nat m = str_nat n) = (m = n)"
  by (auto dest: str_nat_inj)

lemma aid_inj [simp]: "(format_aid m = format_aid n) = (m = n)"
  by (auto simp add: format_aid_def)

lemma ts_inj [simp]: "(format_ts m = format_ts n) = (m = n)"
  by (auto simp add: format_ts_def)

lemma update_fresh: "k \<notin> fst ` set al \<Longrightarrow> AList.update k v al = al @ [(k, v)]"
  by (induction al) auto

lemma next_counter_gt: "next_counter c ts = Inr n \<Longrightarrow> c < n"
  by (auto simp add: next_counter_def bind_Inr_iff split: if_splits)

lemma next_counter_pos: "0 < c \<Longrightarrow> next_counter c ts = Inr (c + 1)"
  by (simp add: next_counter_def)

lemma generate_annotation_id_Inr:
  "generate_annotation_id e = Inr (aid, e') \<Longrightarrow>
     maxaid e < maxaid e' \<and> aid = format_aid (maxaid e') \<and>
     maxts e' = maxts e \<and> timeslots e' = timeslots e \<and> tiers e' = tiers e \<and>
     annotations e' = annotations e \<and> linguistic_types e' = linguistic_types e \<and>
     adocument e' = adocument e"
  by (auto simp add: generate_annotation_id_def bind_Inr_iff dest: next_counter_gt)

lemma generate_ts_id_Inr:
  "generate_ts_id e time = Inr (ts, e') \<Longrightarrow>
     maxts e < maxts e' \<and> ts = format_ts (maxts e') \<and>
     timeslots e' = AList.update ts time (timeslots e) \<and>
     maxaid e' = maxaid e \<and> tiers e' = tiers e \<and>
     annotations e' = annotations e \<and> linguistic_types e' = linguistic_types e \<and>
     adocument e' = adocument e"
  by (auto simp add: generate_ts_id_def bind_Inr_iff Let_def dest: next_counter_gt split: if_splits)

lemma add_annotation_Inr:
  assumes "add_annotation e tn start en val = Inr e'"
  shows "\<exists>t s f m1. map_of (tiers e) tn = Some t \<and> reference_annotations t = [] \<and>
     start = Some s \<and> en = Some f \<and> 0 \<le> s \<and> s < f \<and>
     maxts e < m1 \<and> m1 < maxts e' \<and> maxaid e < maxaid e' \<and>
     timeslots e' = AList.update (format_ts (maxts e')) en
               (AList.update (format_ts m1) start (timeslots e)) \<and>
     annotations e' = AList.update (format_aid (maxaid e')) tn (annotations e) \<and>
     tiers e' = AList.update tn
               (t\<lparr>aligned_annotations := AList.update (format_aid (maxaid e'))
                     (format_ts m1, format_ts (maxts e'), val, None)
                     (aligned_annotations t)\<rparr>)
               (tiers e) \<and>
     linguistic_types e' = linguistic_types e \<and> adocument e' = adocument e"
proof -
  from assms obtain t where t: "map_of (tiers e) tn = Some t"
    by (auto simp add: add_annotation_def bind_Inr_iff getitem_Inr_iff)
  from assms t have r: "reference_annotations t = []" and ne: "start \<noteq> en"
    by (auto simp add: add_annotation_def bind_def getitem_def split: if_splits)
  from assms t r ne obtain s f where sf: "start = Some s" "en = Some f"
    by (cases start; cases en) (auto simp add: add_annotation_def bind_def getitem_def)
  from assms t r ne sf have ord: "0 \<le> s" "s < f"
    by (auto simp add: add_annotation_def bind_def getitem_def split: if_splits)
  from assms t r ne sf ord obtain ts1 e1 ts2 e2 aid e3 where
    g1: "generate_ts_id e start = Inr (ts1, e1)" and
    g2: "generate_ts_id e1 en = Inr (ts2, e2)" and
    g3: "generate_annotation_id e2 = Inr (aid, e3)" and
    e': "e' = e3\<lparr>annotations := AList.update aid tn (annotations e3),
                  tiers := AList.update tn
                    (t\<lparr>aligned_annotations :=
                         AList.update aid (ts1, ts2, val, None) (aligned_annotations t)\<rparr>)
                    (tiers e3)\<rparr>"
    by (auto simp add: add_annotation_def bind_Inr_iff getitem_Inr_iff split: if_splits)
  note f1 = generate_ts_id_Inr [OF g1] and f2 = generate_ts_id_Inr [OF g2]
    and f3 = generate_annotation_id_Inr [OF g3]
  show ?thesis
    apply (rule exI [of _ t], rule exI [of _ s], rule exI [of _ f], rule exI [of _ "maxts e1"])
    using t r sf ord f1 f2 f3 e'
    apply simp
    done
qed


lemma aligned_data_append:
  "aligned_data ts (xs @ ys) =
     bind (aligned_data ts xs) (\<lambda>a. bind (aligned_data ts ys) (\<lambda>b. Inr (a @ b)))"
proof (induction xs)
  case Nil
  show ?case by (cases "aligned_data ts ys") (simp_all add: bind_def)
next
  case (Cons x xs)
  obtain aid b f v s where x: "x = (aid, (b, f, v, s))" by (cases x) auto
  show ?case unfolding x
    by (simp add: Cons bind_def split: sum.splits)
qed

lemma aligned_data_cong:
  "\<forall>(aid, (b, f, v, s)) \<in> set xs. map_of ts' b = map_of ts b \<and> map_of ts' f = map_of ts f
   \<Longrightarrow> aligned_data ts' xs = aligned_data ts xs"
  by (induction ts xs rule: aligned_data.induct) (auto simp add: getitem_def)

lemma aligned_data_length: "aligned_data ts xs = Inr d \<Longrightarrow> length d = length xs"
  by (induction ts xs arbitrary: d rule: aligned_data.induct) (auto simp add: bind_Inr_iff)


lemma entry_below_mono:
  assumes "entry_below ma mt x" "ma \<le> ma'" "mt \<le> mt'"
  shows "entry_below ma' mt' x"
proof -
  from assms(1) obtain n k1 k2 where
    "n \<le> ma" "fst x = format_aid n" "k1 \<le> mt" "fst (snd x) = format_ts k1"
    "k2 \<le> mt" "fst (snd (snd x)) = format_ts k2"
    unfolding entry_below_def by blast
  with assms(2,3) have "n \<le> ma'" "k1 \<le> mt'" "k2 \<le> mt'" by simp_all
  with \<open>fst x = format_aid n\<close> \<open>fst (snd x) = format_ts k1\<close> \<open>fst (snd (snd x)) = format_ts k2\<close>
  show ?thesis unfolding entry_below_def by blast
qed

lemma entry_below_key: "entry_below ma mt x \<Longrightarrow> ma < n \<Longrightarrow> fst x \<noteq> format_aid n"
  unfolding entry_below_def by auto

lemma entry_below_new:
  "a \<le> ma \<Longrightarrow> m1 \<le> mt \<Longrightarrow> m2 \<le> mt \<Longrightarrow>
   entry_below ma mt (format_aid a, (format_ts m1, format_ts m2, v, s))"
  unfolding entry_below_def by auto

lemma aligned_data_old:
  assumes "\<forall>x \<in> set xs. entry_below ma mt x" "mt < m1" "mt < m2"
  shows "aligned_data (AList.update (format_ts m2) y (AList.update (format_ts m1) x' ts)) xs
     = aligned_data ts xs"
  using assms
proof (induction ts xs rule: aligned_data.induct)
  case (1 ts)
  then show ?case by simp
next
  case (2 ts aid b f val svg rest)
  from "2.prems"(1) have "entry_below ma mt (aid, (b, f, val, svg))" by simp
  then obtain k1 k2 where k: "b = format_ts k1" "k1 \<le> mt" "f = format_ts k2" "k2 \<le> mt"
    unfolding entry_below_def by auto
  have b: "getitem (AList.update (format_ts m2) y (AList.update (format_ts m1) x' ts)) b
      = getitem ts b"
    using k "2.prems"(2,3) by (simp add: getitem_def update_conv')
  have f: "getitem (AList.update (format_ts m2) y (AList.update (format_ts m1) x' ts)) f
      = getitem ts f"
    using k "2.prems"(2,3) by (simp add: getitem_def update_conv')
  have r: "aligned_data (AList.update (format_ts m2) y (AList.update (format_ts m1) x' ts)) rest
     = aligned_data ts rest"
    using "2.prems" by (intro "2.IH") auto
  show ?case by (simp only: aligned_data.simps b f r)
qed

lemma tier_copy_loop_data:
  assumes "tier_copy_loop e tn anns = Inr e'" "map_of (tiers e) tn = Some t"
    "reference_annotations t = []"
    "aligned_data (timeslots e) (aligned_annotations t) = Inr d"
    "\<forall>x \<in> set (aligned_annotations t). entry_below (maxaid e) (maxts e) x"
  shows "\<exists>t'. map_of (tiers e') tn = Some t' \<and> reference_annotations t' = [] \<and>
     attributes t' = attributes t \<and>
     aligned_data (timeslots e') (aligned_annotations t') = Inr (d @ anns)"
  using assms
proof (induction anns arbitrary: e t d)
  case Nil
  then show ?case by simp
next
  case (Cons ann anns)
  obtain start en val where ann: "ann = (start, en, val)" by (cases ann) auto
  from Cons.prems(1) obtain e1 where
    a: "add_annotation e tn start en val = Inr e1" and
    l: "tier_copy_loop e1 tn anns = Inr e'"
    by (auto simp add: ann bind_Inr_iff)
  from add_annotation_Inr [OF a] Cons.prems(2) obtain s f m1 where
    sf: "start = Some s" "en = Some f" and
    m: "maxts e < m1" "m1 < maxts e1" "maxaid e < maxaid e1" and
    ts1: "timeslots e1 = AList.update (format_ts (maxts e1)) en
               (AList.update (format_ts m1) start (timeslots e))" and
    tiers1: "tiers e1 = AList.update tn
               (t\<lparr>aligned_annotations := AList.update (format_aid (maxaid e1))
                     (format_ts m1, format_ts (maxts e1), val, None)
                     (aligned_annotations t)\<rparr>)
               (tiers e)"
    by auto
  define new where "new = (format_aid (maxaid e1),
     (format_ts m1, format_ts (maxts e1), val, None :: string option))"
  define t1 where "t1 = t\<lparr>aligned_annotations := aligned_annotations t @ [new]\<rparr>"
  have fresh: "format_aid (maxaid e1) \<notin> fst ` set (aligned_annotations t)"
  proof
    assume "format_aid (maxaid e1) \<in> fst ` set (aligned_annotations t)"
    then obtain x where x: "x \<in> set (aligned_annotations t)" "fst x = format_aid (maxaid e1)"
      by auto
    from Cons.prems(5) x(1) have "entry_below (maxaid e) (maxts e) x" by simp
    from entry_below_key [OF this m(3)] x(2) show False by simp
  qed
  have t1: "map_of (tiers e1) tn = Some t1"
    unfolding tiers1 t1_def new_def by (simp add: update_conv' update_fresh [OF fresh])
  have old: "aligned_data (timeslots e1) (aligned_annotations t) = Inr d"
    unfolding ts1 using aligned_data_old [OF Cons.prems(5), of m1 "maxts e1"] m Cons.prems(4)
    by simp
  have new: "aligned_data (timeslots e1) [new] = Inr [(start, en, val)]"
    unfolding ts1 new_def using m(2) by (simp add: update_conv' getitem_def bind_def)
  have d1: "aligned_data (timeslots e1) (aligned_annotations t1) = Inr (d @ [(start, en, val)])"
  proof -
    have "aligned_data (timeslots e1) (aligned_annotations t @ [new]) = Inr (d @ [(start, en, val)])"
      by (simp only: aligned_data_append old new bind_def sum.case)
    then show ?thesis unfolding t1_def by simp
  qed
  have inv1: "\<forall>x \<in> set (aligned_annotations t1). entry_below (maxaid e1) (maxts e1) x"
  proof
    fix x assume "x \<in> set (aligned_annotations t1)"
    then consider "x \<in> set (aligned_annotations t)" | "x = new"
      unfolding t1_def by auto
    then show "entry_below (maxaid e1) (maxts e1) x"
    proof cases
      case 1
      with Cons.prems(5) have "entry_below (maxaid e) (maxts e) x" by blast
      then show ?thesis
      proof (rule entry_below_mono)
        show "maxaid e \<le> maxaid e1" using m by simp
        show "maxts e \<le> maxts e1" using m by simp
      qed
    next
      case 2
      show ?thesis unfolding 2 new_def using m by (intro entry_below_new) simp_all
    qed
  qed
  have r1: "reference_annotations t1 = []" unfolding t1_def using Cons.prems(3) by simp
  from Cons.IH [OF l t1 r1 d1 inv1]
  show ?case unfolding ann t1_def by simp
qed

lemma add_tier_Inr:
  "add_tier e tn ling parent (Some params) = Inr e' \<Longrightarrow>
     tiers e' = AList.update tn \<lparr>aligned_annotations = [], reference_annotations = [],
        attributes = params, ordinal = length (tiers e)\<rparr> (tiers e) \<and>
     timeslots e' = timeslots e \<and> maxts e' = maxts e \<and> maxaid e' = maxaid e \<and>
     annotations e' = annotations e \<and> linguistic_types e' = linguistic_types e \<and>
     adocument e' = adocument e"
  by (auto simp add: add_tier_def bind_Inr_iff Let_def split: if_splits)

lemma sort_nonempty: "xs \<noteq> [] \<Longrightarrow> \<exists>y ys. sort xs = y # ys"
proof -
  assume "xs \<noteq> []"
  then have "length (sort xs) \<noteq> 0" by simp
  then show ?thesis by (cases "sort xs") auto
qed

lemma add_tier_succeeds:
  "tn \<noteq> [] \<Longrightarrow> linguistic_types e \<noteq> [] \<Longrightarrow> \<exists>e'. add_tier e tn ling parent td = Inr e'"
proof -
  assume a: "tn \<noteq> []" "linguistic_types e \<noteq> []"
  then obtain y ys where "sort (map fst (linguistic_types e)) = y # ys"
    using sort_nonempty [of "map fst (linguistic_types e)"] by auto
  with a show ?thesis
    by (simp add: add_tier_def bind_def Let_def)
qed

lemma add_annotation_succeeds:
  assumes "map_of (tiers e) tn = Some t" "reference_annotations t = []"
    "0 < maxts e" "0 < maxaid e" "0 \<le> s" "s < f"
  shows "\<exists>e'. add_annotation e tn (Some s) (Some f) v = Inr e'"
  using assms
  by (simp add: add_annotation_def getitem_def bind_def generate_ts_id_def
      generate_annotation_id_def next_counter_def Let_def)

lemma tier_copy_loop_succeeds:
  assumes "map_of (tiers e) tn = Some t" "reference_annotations t = []"
    "0 < maxts e" "0 < maxaid e" "\<forall>a \<in> set anns. valid_span a"
  shows "\<exists>e'. tier_copy_loop e tn anns = Inr e'"
  using assms
proof (induction anns arbitrary: e t)
  case Nil
  then show ?case by simp
next
  case (Cons ann anns)
  from Cons.prems(5) have "valid_span ann" by simp
  then obtain s f v where ann: "ann = (Some s, Some f, v)" and sf: "0 \<le> s" "s < f"
    unfolding valid_span_def by (auto split: prod.splits option.splits)
  from add_annotation_succeeds [OF Cons.prems(1-4) sf] obtain e1 where
    e1: "add_annotation e tn (Some s) (Some f) v = Inr e1" by blast
  from add_annotation_Inr [OF e1] Cons.prems(1) obtain t1 where
    t1: "map_of (tiers e1) tn = Some t1" "reference_annotations t1 = []"
    and c: "maxts e < maxts e1" "maxaid e < maxaid e1"
    using Cons.prems(2) by (auto simp add: update_conv')
  from c have pos: "0 < maxts e1" "0 < maxaid e1" by simp_all
  from Cons.prems(5) have rest: "\<forall>a \<in> set anns. valid_span a" by simp
  from Cons.IH [OF t1 pos rest] obtain e' where "tier_copy_loop e1 tn anns = Inr e'" by blast
  with e1 show ?case by (simp add: ann bind_def)
qed

lemma tier_copy_frame:
  "tier_copy env h s t sn tn ov = Inr h' \<Longrightarrow> r \<noteq> t \<Longrightarrow> h' r = h r"
  by (auto simp add: tier_copy_def bind_Inr_iff Let_def)

lemma tier_copy_data:
  assumes "tier_copy env h s t sn tn ov = Inr h'" "s \<noteq> t"
  shows "\<exists>anns t' params. get_annotation_data_for_tier env (h s) sn = Inr anns \<and>
     map_of (tiers (h' t)) tn = Some t' \<and> reference_annotations t' = [] \<and>
     tier_params h s sn ov = Inr params \<and> attributes t' = params \<and>
     aligned_data (timeslots (h' t)) (aligned_annotations t') = Inr anns"
proof -
  from assms(1) obtain params ling target anns target' where
    p: "tier_params h s sn ov = Inr params" and
    at: "add_tier (h t) tn ling None (Some params) = Inr target" and
    g: "get_annotation_data_for_tier env ((h(t := target)) s) sn = Inr anns" and
    l: "tier_copy_loop ((h(t := target)) t) tn anns = Inr target'" and
    h': "h' = (h(t := target))(t := target')"
    by (auto simp add: tier_copy_def bind_Inr_iff Let_def)
  let ?t0 = "\<lparr>aligned_annotations = [], reference_annotations = [],
        attributes = params, ordinal = length (tiers (h t))\<rparr>"
  from add_tier_Inr [OF at] have t0: "map_of (tiers target) tn = Some ?t0"
    by (simp add: update_conv')
  from l have l': "tier_copy_loop target tn anns = Inr target'" by simp
  from tier_copy_loop_data [OF l' t0, of "[]"] obtain t' where
    "map_of (tiers target') tn = Some t'" "reference_annotations t' = []"
    "attributes t' = params"
    "aligned_data (timeslots target') (aligned_annotations t') = Inr anns"
    by auto
  moreover from g assms(2) have "get_annotation_data_for_tier env (h s) sn = Inr anns" by simp
  ultimately show ?thesis using h' p by auto
qed

text \<open>
  C4. When \<open>_tier_copy\<close> returns, the time-aligned data \<open>(start, end, value)\<close> of the
  target tier, read back through the target's own time slots, is the list read from the
  source tier: the same offsets and values, as many annotations, in the same order. The
  copy returns whenever the tier parameters name a linguistic type, the target has a
  linguistic type and positive counters, and every source annotation has a start that is
  not negative and lies before its end.
\<close>

theorem independent_copy_fidelity:
  assumes "source_eaf \<noteq> target_eaf"
  shows "(\<forall>h'. tier_copy env h source_eaf target_eaf source_tier_name target_tier_name
              override_params = Inr h' \<longrightarrow>
           (\<exists>annotations t'.
              get_annotation_data_for_tier env (h source_eaf) source_tier_name = Inr annotations \<and>
              get_annotation_data_for_tier env (h' target_eaf) target_tier_name = Inr annotations \<and>
              map_of (tiers (h' target_eaf)) target_tier_name = Some t' \<and>
              reference_annotations t' = [] \<and>
              length (aligned_annotations t') = length annotations))
     \<and> (\<forall>params ling annotations.
           tier_params h source_eaf source_tier_name override_params = Inr params \<and>
           map_of params ''LINGUISTIC_TYPE_REF'' = Some ling \<and>
           target_tier_name \<noteq> [] \<and> linguistic_types (h target_eaf) \<noteq> [] \<and>
           0 < maxts (h target_eaf) \<and> 0 < maxaid (h target_eaf) \<and>
           get_annotation_data_for_tier env (h source_eaf) source_tier_name = Inr annotations \<and>
           (\<forall>a \<in> set annotations. valid_span a) \<longrightarrow>
           (\<exists>h'. tier_copy env h source_eaf target_eaf source_tier_name target_tier_name
              override_params = Inr h'))"
proof (intro conjI allI impI)
  fix h'
  assume c: "tier_copy env h source_eaf target_eaf source_tier_name target_tier_name
              override_params = Inr h'"
  from tier_copy_data [OF c assms] obtain anns t' where
    s: "get_annotation_data_for_tier env (h source_eaf) source_tier_name = Inr anns" and
    t: "map_of (tiers (h' target_eaf)) target_tier_name = Some t'" "reference_annotations t' = []" and
    d: "aligned_data (timeslots (h' target_eaf)) (aligned_annotations t') = Inr anns"
    by blast
  from t d have "get_annotation_data_for_tier env (h' target_eaf) target_tier_name = Inr anns"
    by (simp add: get_annotation_data_for_tier_def getitem_def bind_def)
  moreover from aligned_data_length [OF d] have "length (aligned_annotations t') = length anns"
    by simp
  ultimately show "\<exists>annotations t'.
              get_annotation_data_for_tier env (h source_eaf) source_tier_name = Inr annotations \<and>
              get_annotation_data_for_tier env (h' target_eaf) target_tier_name = Inr annotations \<and>
              map_of (tiers (h' target_eaf)) target_tier_name = Some t' \<and>
              reference_annotations t' = [] \<and>
              length (aligned_annotations t') = length annotations"
    using s t by blast
next
  fix params ling annotations
  assume a: "tier_params h source_eaf source_tier_name override_params = Inr params \<and>
           map_of params ''LINGUISTIC_TYPE_REF'' = Some ling \<and>
           target_tier_name \<noteq> [] \<and> linguistic_types (h target_eaf) \<noteq> [] \<and>
           0 < maxts (h target_eaf) \<and> 0 < maxaid (h target_eaf) \<and>
           get_annotation_data_for_tier env (h source_eaf) source_tier_name = Inr annotations \<and>
           (\<forall>a \<in> set annotations. valid_span a)"
  then obtain target where
    at: "add_tier (h target_eaf) target_tier_name ling None (Some params) = Inr target"
    using add_tier_succeeds by blast
  let ?t0 = "\<lparr>aligned_annotations = [], reference_annotations = [],
        attributes = params, ordinal = length (tiers (h target_eaf))\<rparr>"
  from add_tier_Inr [OF at] have t0: "map_of (tiers target) target_tier_name = Some ?t0"
    and c: "maxts target = maxts (h target_eaf)" "maxaid target = maxaid (h target_eaf)"
    by (simp_all add: update_conv')
  from a c have pos: "0 < maxts target" "0 < maxaid target" by simp_all
  from a have v: "\<forall>a \<in> set annotations. valid_span a" by simp
  from tier_copy_loop_succeeds [OF t0 _ pos v] obtain target' where
    l: "tier_copy_loop target target_tier_name annotations = Inr target'" by auto
  from a assms have g: "get_annotation_data_for_tier env ((h(target_eaf := target)) source_eaf)
      source_tier_name = Inr annotations" by simp
  from a at g l show "\<exists>h'. tier_copy env h source_eaf target_eaf source_tier_name target_tier_name
              override_params = Inr h'"
    by (simp add: tier_copy_def bind_def getitem_def Let_def)
qed

lemma example_source_data:
  "get_annotation_data_for_tier example_env (example_heap Eaf_2) utterance_id_source_tier
     = Inr [(Some 0, Some 500, ''1''), (Some 1000, Some 4000, ''2'')]"
  by code_simp

theorem independent_copy_fidelity_witness:
  "Eaf_2 \<noteq> Eaf_3 \<and>
   (\<exists>h'. tier_copy example_env example_heap Eaf_2 Eaf_3 utterance_id_source_tier
            utterance_id_target_tier utterance_id_tier_params = Inr h' \<and>
          get_annotation_data_for_tier example_env (h' Eaf_3) utterance_id_target_tier
            = Inr [(Some 0, Some 500, ''1''), (Some 1000, Some 4000, ''2'')])"
proof -
  have ne: "Eaf_2 \<noteq> Eaf_3" by simp
  note inst = independent_copy_fidelity [OF ne, of example_env example_heap
      utterance_id_source_tier utterance_id_target_tier utterance_id_tier_params]
  have pre: "tier_params example_heap Eaf_2 utterance_id_source_tier utterance_id_tier_params
        = Inr utterance_id_tier_params \<and>
      map_of utterance_id_tier_params ''LINGUISTIC_TYPE_REF'' = Some (Some ''default-lt'') \<and>
      utterance_id_target_tier \<noteq> [] \<and> linguistic_types (example_heap Eaf_3) \<noteq> [] \<and>
      0 < maxts (example_heap Eaf_3) \<and> 0 < maxaid (example_heap Eaf_3) \<and>
      get_annotation_data_for_tier example_env (example_heap Eaf_2) utterance_id_source_tier
        = Inr [(Some 0, Some 500, ''1''), (Some 1000, Some 4000, ''2'')] \<and>
      (\<forall>a \<in> set [(Some 0, Some 500, ''1''), (Some 1000, Some (4000::int), ''2'')]. valid_span a)"
    by code_simp
  from inst pre obtain h' where h': "tier_copy example_env example_heap Eaf_2 Eaf_3
     utterance_id_source_tier utterance_id_target_tier utterance_id_tier_params = Inr h'"
    by blast
  with inst example_source_data show ?thesis by fastforce
qed

section \<open>The symbolic-subdivision copy\<close>

lemma add_ref_annotation_Inr:
  assumes "add_ref_annotation env e tn tier2 time val prev = Inr e'"
  shows "\<exists>ann t. find_parent env e tn tier2 time = Inr ann \<and> map_of (tiers e) tn = Some t \<and>
     maxaid e < maxaid e' \<and>
     tiers e' = AList.update tn
        (t\<lparr>reference_annotations := AList.update (format_aid (maxaid e'))
             (ann, val, prev, None) (reference_annotations t)\<rparr>) (tiers e) \<and>
     annotations e' = AList.update (format_aid (maxaid e')) tn (annotations e) \<and>
     timeslots e' = timeslots e \<and> maxts e' = maxts e \<and>
     linguistic_types e' = linguistic_types e \<and> adocument e' = adocument e"
proof -
  from assms obtain ann aid e1 t where
    f: "find_parent env e tn tier2 time = Inr ann" and
    g: "generate_annotation_id e = Inr (aid, e1)" and
    t: "map_of (tiers e1) tn = Some t" and
    e': "e' = e1\<lparr>annotations := AList.update aid tn (annotations e1),
              tiers := AList.update tn
                (t\<lparr>reference_annotations :=
                     AList.update aid (ann, val, prev, None) (reference_annotations t)\<rparr>)
                (tiers e1)\<rparr>"
    by (auto simp add: add_ref_annotation_def bind_Inr_iff getitem_Inr_iff)
  note g' = generate_annotation_id_Inr [OF g]
  show ?thesis
    apply (rule exI [of _ ann], rule exI [of _ t])
    using f t e' g' apply simp
    done
qed

lemma link_at_Suc:
  "link_at ppid pid (k # keys) (a # ids) (Suc j) = link_at (Some k) (Some a) keys ids j"
  by (cases j) (simp_all add: link_at_def)

lemma subdivision_loop_refs:
  assumes "subdivision_loop env e tn pn ppid pid anns = Inr e'" "map_of (tiers e) tn = Some t"
    "\<forall>x \<in> set (reference_annotations t). \<exists>n\<le>maxaid e. fst x = format_aid n"
  shows "\<exists>t' new ns. map_of (tiers e') tn = Some t' \<and>
     reference_annotations t' = reference_annotations t @ new \<and>
     aligned_annotations t' = aligned_annotations t \<and> attributes t' = attributes t \<and>
     map fst new = map format_aid ns \<and> sorted_wrt (<) ns \<and>
     (\<forall>n \<in> set ns. maxaid e < n \<and> n \<le> maxaid e') \<and> maxaid e \<le> maxaid e' \<and>
     map annotation_value new = map data_value anns \<and>
     (\<forall>i<length anns. annotation_prev (new ! i) =
        link_at ppid pid (map data_parent anns) (map fst new) i)"
  using assms
proof (induction anns arbitrary: e t ppid pid)
  case Nil
  then show ?case by simp
next
  case (Cons a anns)
  obtain start en val parent where a: "a = (start, en, val, parent)" by (cases a) auto
  define prev where "prev = (if Some parent = ppid then pid else None)"
  from Cons.prems(1) obtain time e1 where
    r: "add_ref_annotation env e tn pn time val prev = Inr e1" and
    l: "subdivision_loop env e1 tn pn (Some parent) (Some (format_aid (maxaid e1))) anns = Inr e'"
    unfolding a prev_def by (auto simp add: bind_Inr_iff Let_def)
  from add_ref_annotation_Inr [OF r] Cons.prems(2) obtain ann where
    m: "maxaid e < maxaid e1" and
    tiers1: "tiers e1 = AList.update tn
        (t\<lparr>reference_annotations := AList.update (format_aid (maxaid e1))
             (ann, val, prev, None) (reference_annotations t)\<rparr>) (tiers e)"
    by auto
  define x where "x = (format_aid (maxaid e1), (ann, val, prev, None :: string option))"
  define t1 where "t1 = t\<lparr>reference_annotations := reference_annotations t @ [x]\<rparr>"
  have fresh: "format_aid (maxaid e1) \<notin> fst ` set (reference_annotations t)"
  proof
    assume "format_aid (maxaid e1) \<in> fst ` set (reference_annotations t)"
    then obtain y where y: "y \<in> set (reference_annotations t)" "fst y = format_aid (maxaid e1)"
      by auto
    from Cons.prems(3) y(1) obtain n where "n \<le> maxaid e" "fst y = format_aid n" by blast
    with y(2) m show False by simp
  qed
  have t1: "map_of (tiers e1) tn = Some t1"
    unfolding tiers1 t1_def x_def by (simp add: update_conv' update_fresh [OF fresh])
  have inv1: "\<forall>y \<in> set (reference_annotations t1). \<exists>n\<le>maxaid e1. fst y = format_aid n"
  proof
    fix y assume "y \<in> set (reference_annotations t1)"
    then consider "y \<in> set (reference_annotations t)" | "y = x" unfolding t1_def by auto
    then show "\<exists>n\<le>maxaid e1. fst y = format_aid n"
    proof cases
      case 1
      with Cons.prems(3) obtain n where "n \<le> maxaid e" "fst y = format_aid n" by blast
      with m show ?thesis by (intro exI [of _ n]) simp
    next
      case 2
      then show ?thesis unfolding x_def by (intro exI [of _ "maxaid e1"]) simp
    qed
  qed
  from Cons.IH [OF l t1 inv1] obtain t' new ns where
    t': "map_of (tiers e') tn = Some t'" and
    refs: "reference_annotations t' = reference_annotations t1 @ new" and
    same: "aligned_annotations t' = aligned_annotations t1" "attributes t' = attributes t1" and
    ids: "map fst new = map format_aid ns" "sorted_wrt (<) ns" and
    bounds: "\<forall>n \<in> set ns. maxaid e1 < n \<and> n \<le> maxaid e'" "maxaid e1 \<le> maxaid e'" and
    vals: "map annotation_value new = map data_value anns" and
    links: "\<forall>i<length anns. annotation_prev (new ! i) =
        link_at (Some parent) (Some (format_aid (maxaid e1))) (map data_parent anns) (map fst new) i"
    by blast
  have 1: "reference_annotations t' = reference_annotations t @ (x # new)"
    using refs unfolding t1_def by simp
  have 2: "map fst (x # new) = map format_aid (maxaid e1 # ns)"
    using ids(1) unfolding x_def by simp
  have 3: "sorted_wrt (<) (maxaid e1 # ns)"
    using ids(2) bounds(1) by simp
  have 4: "\<forall>n \<in> set (maxaid e1 # ns). maxaid e < n \<and> n \<le> maxaid e'"
    using bounds m by auto
  have 5: "map annotation_value (x # new) = map data_value (a # anns)"
    using vals unfolding x_def a by (simp add: annotation_value_def data_value_def)
  have 6: "\<forall>i<length (a # anns). annotation_prev ((x # new) ! i) =
        link_at ppid pid (map data_parent (a # anns)) (map fst (x # new)) i"
  proof (intro allI impI)
    fix i assume i: "i < length (a # anns)"
    show "annotation_prev ((x # new) ! i) =
        link_at ppid pid (map data_parent (a # anns)) (map fst (x # new)) i"
    proof (cases i)
      case 0
      then show ?thesis
        unfolding x_def a prev_def by (simp add: annotation_prev_def link_at_def data_parent_def)
    next
      case (Suc j)
      with i have j: "j < length anns" by simp
      have "data_parent a = parent" unfolding a by (simp add: data_parent_def)
      moreover have "fst x = format_aid (maxaid e1)" unfolding x_def by simp
      ultimately show ?thesis
        using links j unfolding Suc by (simp add: link_at_Suc)
    qed
  qed
  have 7: "aligned_annotations t' = aligned_annotations t" "attributes t' = attributes t"
    using same unfolding t1_def by simp_all
  have 8: "maxaid e \<le> maxaid e'" using m bounds(2) by simp
  show ?case
    apply (rule exI [of _ t'], rule exI [of _ "x # new"], rule exI [of _ "maxaid e1 # ns"])
    using t' 1 2 3 4 5 6 7 8 apply blast
    done
qed

lemma copy_symbolic_subdivision_tier_frame:
  "copy_symbolic_subdivision_tier env h s t sn tn pn ov = Inr h' \<Longrightarrow> r \<noteq> t \<Longrightarrow> h' r = h r"
  by (auto simp add: copy_symbolic_subdivision_tier_def bind_Inr_iff Let_def)

lemma format_aid_distinct: "sorted_wrt (<) ns \<Longrightarrow> distinct (map format_aid ns)"
proof -
  assume "sorted_wrt (<) (ns :: nat list)"
  then have "distinct ns" by (simp add: strict_sorted_iff)
  moreover have "inj_on format_aid (set ns)" by (rule inj_onI) simp
  ultimately show ?thesis by (simp add: distinct_map)
qed

text \<open>
  When \<open>_copy_symbolic_subdivision_tier\<close> returns, the target tier holds one reference
  annotation per source tuple, in source order, under distinct generated identifiers. The
  annotation at position \<open>i\<close> carries a previous-link exactly when \<open>i > 0\<close> and the fourth
  component of its source tuple equals that of the tuple just before it, and the link is
  then the identifier generated at position \<open>i - 1\<close>. The fourth component is what
  \<open>get_ref_annotation_data_for_tier\<close> puts there: in the library, the text value of the
  parent annotation.
\<close>

lemma subdivision_links:
  assumes "copy_symbolic_subdivision_tier env h source_eaf target_eaf source_tier_name
             target_tier_name target_parent_tier_name override_params = Inr h'"
    "source_eaf \<noteq> target_eaf"
  shows "\<exists>annotations t' ns.
     ref_annotation_data env (h source_eaf) source_tier_name = Inr annotations \<and>
     map_of (tiers (h' target_eaf)) target_tier_name = Some t' \<and>
     map annotation_value (reference_annotations t') = map data_value annotations \<and>
     map fst (reference_annotations t') = map format_aid ns \<and> sorted_wrt (<) ns \<and>
     distinct (map fst (reference_annotations t')) \<and>
     (\<forall>i<length annotations.
        annotation_prev (reference_annotations t' ! i) =
          (if 0 < i \<and> data_parent (annotations ! i) = data_parent (annotations ! (i - 1))
           then Some (fst (reference_annotations t' ! (i - 1))) else None))"
proof -
  from assms(1) obtain params ling target anns target' where
    at: "add_tier (h target_eaf) target_tier_name ling (Some target_parent_tier_name)
           (Some params) = Inr target" and
    g: "ref_annotation_data env ((h(target_eaf := target)) source_eaf) source_tier_name = Inr anns" and
    l: "subdivision_loop env ((h(target_eaf := target)) target_eaf) target_tier_name
          target_parent_tier_name None None anns = Inr target'" and
    h': "h' = (h(target_eaf := target))(target_eaf := target')"
    by (auto simp add: copy_symbolic_subdivision_tier_def bind_Inr_iff Let_def)
  let ?t0 = "\<lparr>aligned_annotations = [], reference_annotations = [],
        attributes = params, ordinal = length (tiers (h target_eaf))\<rparr>"
  from add_tier_Inr [OF at] have t0: "map_of (tiers target) target_tier_name = Some ?t0"
    by (simp add: update_conv')
  from l have l': "subdivision_loop env target target_tier_name target_parent_tier_name
      None None anns = Inr target'" by simp
  from subdivision_loop_refs [OF l' t0] obtain t' new ns where
    t': "map_of (tiers target') target_tier_name = Some t'" and
    refs: "reference_annotations t' = new" and
    ids: "map fst new = map format_aid ns" "sorted_wrt (<) ns" and
    vals: "map annotation_value new = map data_value anns" and
    links: "\<forall>i<length anns. annotation_prev (new ! i) =
        link_at None None (map data_parent anns) (map fst new) i"
    by auto
  from vals have len: "length new = length anns" by (metis length_map)
  have chain: "\<forall>i<length anns.
        annotation_prev (new ! i) =
          (if 0 < i \<and> data_parent (anns ! i) = data_parent (anns ! (i - 1))
           then Some (fst (new ! (i - 1))) else None)"
  proof (intro allI impI)
    fix i assume i: "i < length anns"
    with links have "annotation_prev (new ! i) =
        link_at None None (map data_parent anns) (map fst new) i" by simp
    also have "\<dots> = (if 0 < i \<and> data_parent (anns ! i) = data_parent (anns ! (i - 1))
           then Some (fst (new ! (i - 1))) else None)"
      using i len by (cases i) (simp_all add: link_at_def)
    finally show "annotation_prev (new ! i) =
          (if 0 < i \<and> data_parent (anns ! i) = data_parent (anns ! (i - 1))
           then Some (fst (new ! (i - 1))) else None)" .
  qed
  from g assms(2) have src: "ref_annotation_data env (h source_eaf) source_tier_name = Inr anns"
    by simp
  have d: "distinct (map fst new)" using ids format_aid_distinct by simp
  show ?thesis
    apply (rule exI [of _ anns], rule exI [of _ t'], rule exI [of _ ns])
    using src t' h' refs ids vals chain d apply simp
    done
qed

text \<open>
  C2. The docstring of \<open>_copy_symbolic_subdivision_tier\<close> asks that the annotations of each
  group refer to their previous, except the first one of the group. The loop compares
  \<open>annotation[3]\<close> with that of the tuple before it, and \<open>annotation[3]\<close> is the text value
  of the parent annotation, not its identifier: two adjacent parents with the same value
  are taken for one group. In \<open>example_same_value\<close> the utterances \<open>u1\<close> and \<open>u2\<close> are both
  numbered \<open>1\<close> and the words belong to \<open>u1, u2, u2, u2\<close>. \<open>main\<close> returns on it, the
  words are anchored to \<open>a2, a3, a3, a3\<close>, and the first word of the second utterance,
  \<open>a9\<close>, carries a previous-link to \<open>a8\<close>, the word of the first utterance: the group of
  \<open>a3\<close> has no annotation without a previous-link, and the chain runs across the two
  groups.
\<close>

theorem subdivision_chain_crosses_groups:
  "map (\<lambda>(aid, (ref, val, prev, svg)). ref)
     (case map_of (tiers example_same_value) word_source_tier of
        None \<Rightarrow> [] | Some t \<Rightarrow> reference_annotations t)
     = [''u1'', ''u2'', ''u2'', ''u2''] \<and>
   (case main example_env [] example_file_1 example_same_value of
      Inl e \<Rightarrow> None
    | Inr h \<Rightarrow> map_option reference_annotations (map_of (tiers (h Eaf_3)) word_target_tier))
     = Some [(''a8'', (''a2'', ''no'', None, None)),
             (''a9'', (''a3'', ''no'', Some ''a8'', None)),
             (''a10'', (''a3'', ''went'', Some ''a9'', None)),
             (''a11'', (''a3'', ''eh'', Some ''a10'', None))]"
  by code_simp

section \<open>The gloss tier\<close>

lemma gloss_step_refl:
  "map_of (tiers e) id_tier = Some tg \<Longrightarrow> 0 < maxaid e \<Longrightarrow>
   keys_below (maxaid e) (reference_annotations tg) \<Longrightarrow> gloss_step id_tier e tg e tg"
  by (simp add: gloss_step_def map_upd_triv)

lemma gloss_step_trans:
  "gloss_step id_tier e tg e1 tg1 \<Longrightarrow> gloss_step id_tier e1 tg1 e2 tg2 \<Longrightarrow>
   gloss_step id_tier e tg e2 tg2"
  by (simp add: gloss_step_def)

lemma gloss_step_tier: "gloss_step id_tier e tg e' tg' \<Longrightarrow> map_of (tiers e') id_tier = Some tg'"
  by (simp add: gloss_step_def)

lemma gloss_step_other:
  "gloss_step id_tier e tg e' tg' \<Longrightarrow> k \<noteq> id_tier \<Longrightarrow> map_of (tiers e') k = map_of (tiers e) k"
  by (simp add: gloss_step_def)

lemma emitted_Cons:
  "emitted ((aid, (ref_id, v, p, s)) # rest) (word, val) =
     (if v = word then (aid, val, None, None) # emitted rest (word, val)
      else emitted rest (word, val))"
  by (simp add: emitted_def matching_def annotation_value_def)

lemma emitted_Nil: "emitted [] p = []"
  by (simp add: emitted_def matching_def)

lemma keys_below_fresh: "keys_below n d \<Longrightarrow> n < m \<Longrightarrow> format_aid m \<notin> fst ` set d"
proof
  assume a: "keys_below n d" "n < m" "format_aid m \<in> fst ` set d"
  then obtain y where y: "y \<in> set d" "fst y = format_aid m" by auto
  with a(1) obtain k where "k \<le> n" "fst y = format_aid k" unfolding keys_below_def by blast
  with y(2) a(2) show False by simp
qed

lemma keys_below_snoc:
  "keys_below n d \<Longrightarrow> n \<le> m \<Longrightarrow> keys_below m (d @ [(format_aid m, v)])"
  unfolding keys_below_def
proof
  fix x assume a: "\<forall>x\<in>set d. \<exists>k\<le>n. fst x = format_aid k" "n \<le> m"
    "x \<in> set (d @ [(format_aid m, v)])"
  then consider "x \<in> set d" | "x = (format_aid m, v)" by auto
  then show "\<exists>k\<le>m. fst x = format_aid k"
  proof cases
    case 1
    with a(1) obtain k where "k \<le> n" "fst x = format_aid k" by blast
    with a(2) show ?thesis by (intro exI [of _ k]) simp
  next
    case 2
    then show ?thesis by (intro exI [of _ m]) simp
  qed
qed

lemma generate_annotation_id_pos:
  "0 < maxaid e \<Longrightarrow>
   generate_annotation_id e = Inr (format_aid (maxaid e + 1), e\<lparr>maxaid := maxaid e + 1\<rparr>)"
  by (simp add: generate_annotation_id_def next_counter_def bind_def)

lemma match_loop_Inr:
  assumes "map_of (tiers e) id_tier = Some tg" "0 < maxaid e"
    "keys_below (maxaid e) (reference_annotations tg)"
  shows "\<exists>e' tg'. match_loop e id_tier items word val = Inr e' \<and> gloss_step id_tier e tg e' tg' \<and>
     map snd (reference_annotations tg') =
       map snd (reference_annotations tg) @ emitted items (word, val)"
  using assms
proof (induction items arbitrary: e tg)
  case Nil
  from gloss_step_refl [OF Nil] show ?case
    by (intro exI [of _ e] exI [of _ tg]) (simp add: emitted_Nil)
next
  case (Cons item items)
  obtain aid ref_id v p s where item: "item = (aid, (ref_id, v, p, s))" by (cases item) auto
  show ?case
  proof (cases "word = v")
    case False
    from Cons.IH [OF Cons.prems] obtain e' tg' where
      "match_loop e id_tier items word val = Inr e'" "gloss_step id_tier e tg e' tg'"
      "map snd (reference_annotations tg') =
         map snd (reference_annotations tg) @ emitted items (word, val)" by blast
    with False show ?thesis unfolding item by (auto simp add: emitted_Cons)
  next
    case True
    define n where "n = maxaid e + 1"
    define tg1 where "tg1 = tg\<lparr>reference_annotations :=
        reference_annotations tg @ [(format_aid n, (aid, val, None, None))]\<rparr>"
    define e1 where "e1 = e\<lparr>maxaid := n, tiers := AList.update id_tier tg1 (tiers e)\<rparr>"
    have fresh: "format_aid n \<notin> fst ` set (reference_annotations tg)"
      using keys_below_fresh [OF Cons.prems(3), of n] unfolding n_def by simp
    have step: "match_loop e id_tier (item # items) word val = match_loop e1 id_tier items word val"
      unfolding item e1_def tg1_def n_def [symmetric]
      using True Cons.prems(1,2) fresh
      by (simp add: generate_annotation_id_pos bind_def getitem_def update_fresh n_def)
    have t1: "map_of (tiers e1) id_tier = Some tg1" unfolding e1_def by (simp add: update_conv')
    have pos1: "0 < maxaid e1" unfolding e1_def n_def by simp
    have kb1: "keys_below (maxaid e1) (reference_annotations tg1)"
      unfolding e1_def tg1_def using keys_below_snoc [OF Cons.prems(3), of n] n_def by simp
    have id_in: "id_tier \<in> set (map fst (tiers e))"
      using Cons.prems(1) by (metis map_of_eq_None_iff option.distinct(1) set_map)
    have gs1: "gloss_step id_tier e tg e1 tg1"
      unfolding gloss_step_def using kb1 pos1 id_in
      by (simp add: e1_def tg1_def n_def update_conv' update_keys)
    from Cons.IH [OF t1 pos1 kb1] obtain e' tg' where
      r: "match_loop e1 id_tier items word val = Inr e'" and gs: "gloss_step id_tier e1 tg1 e' tg'"
      and refs: "map snd (reference_annotations tg') =
         map snd (reference_annotations tg1) @ emitted items (word, val)" by blast
    have "map snd (reference_annotations tg') =
       map snd (reference_annotations tg) @ emitted (item # items) (word, val)"
      using refs True unfolding item tg1_def by (simp add: emitted_Cons)
    with r step gloss_step_trans [OF gs1 gs] show ?thesis by auto
  qed
qed

lemma ann_loop_Inr:
  assumes "id_tier \<noteq> tier2" "map_of (tiers e) tier2 = Some tw"
    "map_of (tiers e) id_tier = Some tg" "0 < maxaid e"
    "keys_below (maxaid e) (reference_annotations tg)"
  shows "\<exists>e' tg'. ann_loop e id_tier tier2 utt_start word_dur count anns = Inr e' \<and>
     gloss_step id_tier e tg e' tg' \<and>
     map snd (reference_annotations tg') =
       map snd (reference_annotations tg) @ concat (map (emitted (reference_annotations tw)) anns)"
  using assms
proof (induction anns arbitrary: e tg count)
  case Nil
  from gloss_step_refl [OF Nil(3,4,5)] show ?case
    by (intro exI [of _ e] exI [of _ tg]) simp
next
  case (Cons ann anns)
  obtain word val where ann: "ann = (word, val)" by (cases ann) auto
  from match_loop_Inr [OF Cons.prems(3,4,5), of "reference_annotations tw" word val]
  obtain e1 tg1 where
    m: "match_loop e id_tier (reference_annotations tw) word val = Inr e1" and
    gs1: "gloss_step id_tier e tg e1 tg1" and
    refs1: "map snd (reference_annotations tg1) =
       map snd (reference_annotations tg) @ emitted (reference_annotations tw) (word, val)"
    by blast
  have tw1: "map_of (tiers e1) tier2 = Some tw"
    using gloss_step_other [OF gs1, of tier2] Cons.prems(1,2) by simp
  have tg1: "map_of (tiers e1) id_tier = Some tg1" using gloss_step_tier [OF gs1] .
  have pos1: "0 < maxaid e1" and kb1: "keys_below (maxaid e1) (reference_annotations tg1)"
    using gs1 by (simp_all add: gloss_step_def)
  from Cons.IH [OF Cons.prems(1) tw1 tg1 pos1 kb1, of "count + 1"] obtain e' tg' where
    r: "ann_loop e1 id_tier tier2 utt_start word_dur (count + 1) anns = Inr e'" and
    gs: "gloss_step id_tier e1 tg1 e' tg'" and
    refs: "map snd (reference_annotations tg') =
       map snd (reference_annotations tg1) @ concat (map (emitted (reference_annotations tw)) anns)"
    by blast
  have "ann_loop e id_tier tier2 utt_start word_dur count (ann # anns) = Inr e'"
    unfolding ann using m r Cons.prems(2) by (simp add: bind_def getitem_def Let_def)
  moreover have "map snd (reference_annotations tg') =
       map snd (reference_annotations tg) @
       concat (map (emitted (reference_annotations tw)) (ann # anns))"
    using refs refs1 unfolding ann by simp
  ultimately show ?case using gloss_step_trans [OF gs1 gs] by blast
qed

lemma new_dict_loop_Inr:
  assumes "id_tier \<noteq> tier2" "map_of (tiers e) tier2 = Some tw"
    "map_of (tiers e) id_tier = Some tg" "0 < maxaid e"
    "keys_below (maxaid e) (reference_annotations tg)"
  shows "\<exists>e' tg'. new_dict_loop e id_tier tier2 new_dict = Inr e' \<and>
     gloss_step id_tier e tg e' tg' \<and>
     map snd (reference_annotations tg') =
       map snd (reference_annotations tg) @
       concat (map (emitted (reference_annotations tw)) (pairs_of new_dict))"
  using assms
proof (induction new_dict arbitrary: e tg)
  case Nil
  from gloss_step_refl [OF Nil(3,4,5)] show ?case
    by (intro exI [of _ e] exI [of _ tg]) (simp add: pairs_of_def)
next
  case (Cons x new_dict)
  obtain ann_id utt_start word_dur anns where x: "x = (ann_id, (utt_start, word_dur, anns))"
    by (cases x) auto
  from ann_loop_Inr [OF Cons.prems, of utt_start word_dur 0 anns]
  obtain e1 tg1 where
    m: "ann_loop e id_tier tier2 utt_start word_dur 0 anns = Inr e1" and
    gs1: "gloss_step id_tier e tg e1 tg1" and
    refs1: "map snd (reference_annotations tg1) =
       map snd (reference_annotations tg) @ concat (map (emitted (reference_annotations tw)) anns)"
    by blast
  have tw1: "map_of (tiers e1) tier2 = Some tw"
    using gloss_step_other [OF gs1, of tier2] Cons.prems(1,2) by simp
  have tg1: "map_of (tiers e1) id_tier = Some tg1" using gloss_step_tier [OF gs1] .
  have pos1: "0 < maxaid e1" and kb1: "keys_below (maxaid e1) (reference_annotations tg1)"
    using gs1 by (simp_all add: gloss_step_def)
  from Cons.IH [OF Cons.prems(1) tw1 tg1 pos1 kb1] obtain e' tg' where
    r: "new_dict_loop e1 id_tier tier2 new_dict = Inr e'" and
    gs: "gloss_step id_tier e1 tg1 e' tg'" and
    refs: "map snd (reference_annotations tg') =
       map snd (reference_annotations tg1) @
       concat (map (emitted (reference_annotations tw)) (pairs_of new_dict))"
    by blast
  have "new_dict_loop e id_tier tier2 (x # new_dict) = Inr e'"
    unfolding x using m r by (simp add: bind_def)
  moreover have "map snd (reference_annotations tg') =
       map snd (reference_annotations tg) @
       concat (map (emitted (reference_annotations tw)) (pairs_of (x # new_dict)))"
    using refs refs1 unfolding x by (simp add: pairs_of_def)
  ultimately show ?case using gloss_step_trans [OF gs1 gs] by blast
qed

lemma match_loop_no_match:
  "matching items word = [] \<Longrightarrow> match_loop e id_tier items word val = Inr e"
proof (induction items)
  case Nil
  show ?case by simp
next
  case (Cons item items)
  obtain aid ref_id v p s where item: "item = (aid, (ref_id, v, p, s))" by (cases item) auto
  from Cons.prems have "word \<noteq> v" "matching items word = []"
    unfolding item by (auto simp add: matching_def annotation_value_def split: if_splits)
  with Cons.IH show ?case unfolding item by simp
qed

text \<open>
  C8. On a target whose gloss tier \<open>id_tier\<close> and word tier \<open>tier2\<close> exist, the loop of
  lines 346-349 for one pair \<open>(word, gloss)\<close> returns without an exception and appends to
  the gloss tier exactly one annotation per annotation of the word tier whose value is
  the word, in tier order, each referring to its match, carrying the gloss and no
  previous-link: nothing when there is no match (the document is unchanged), \<open>k\<close>
  annotations for \<open>k\<close> matches. The whole emission appends these lists for the pairs of
  the table in order.
\<close>

theorem gloss_per_match:
  assumes "id_tier \<noteq> tier2" "map_of (tiers eaf_3) tier2 = Some word_tier"
    "map_of (tiers eaf_3) id_tier = Some gloss_tier" "0 < maxaid eaf_3"
    "keys_below (maxaid eaf_3) (reference_annotations gloss_tier)"
  shows "(\<exists>e t. match_loop eaf_3 id_tier (reference_annotations word_tier) word val = Inr e \<and>
            map_of (tiers e) id_tier = Some t \<and> map_of (tiers e) tier2 = Some word_tier \<and>
            map snd (reference_annotations t) =
              map snd (reference_annotations gloss_tier) @
              map (\<lambda>m. (fst m, val, None, None)) (matching (reference_annotations word_tier) word) \<and>
            length (reference_annotations t) =
              length (reference_annotations gloss_tier) +
              length (matching (reference_annotations word_tier) word) \<and>
            (matching (reference_annotations word_tier) word = [] \<longrightarrow> e = eaf_3))
     \<and> (\<exists>e t. new_dict_loop eaf_3 id_tier tier2 new_dict = Inr e \<and>
            map_of (tiers e) id_tier = Some t \<and> map_of (tiers e) tier2 = Some word_tier \<and>
            map snd (reference_annotations t) =
              map snd (reference_annotations gloss_tier) @
              concat (map (emitted (reference_annotations word_tier)) (pairs_of new_dict)))"
proof (rule conjI)
  from match_loop_Inr [OF assms(3,4,5), of "reference_annotations word_tier" word val]
  obtain e t where
    m: "match_loop eaf_3 id_tier (reference_annotations word_tier) word val = Inr e" and
    gs: "gloss_step id_tier eaf_3 gloss_tier e t" and
    refs: "map snd (reference_annotations t) =
       map snd (reference_annotations gloss_tier) @
       emitted (reference_annotations word_tier) (word, val)"
    by blast
  have 1: "map_of (tiers e) id_tier = Some t" using gloss_step_tier [OF gs] .
  have 2: "map_of (tiers e) tier2 = Some word_tier"
    using gloss_step_other [OF gs, of tier2] assms(1,2) by simp
  have 3: "map snd (reference_annotations t) =
      map snd (reference_annotations gloss_tier) @
      map (\<lambda>m. (fst m, val, None, None)) (matching (reference_annotations word_tier) word)"
    using refs by (simp add: emitted_def)
  have "length (map snd (reference_annotations t)) =
      length (map snd (reference_annotations gloss_tier) @
        map (\<lambda>m. (fst m, val, None, None :: string option))
          (matching (reference_annotations word_tier) word))"
    using 3 by simp
  then have 4: "length (reference_annotations t) =
      length (reference_annotations gloss_tier) +
      length (matching (reference_annotations word_tier) word)" by simp
  have 5: "matching (reference_annotations word_tier) word = [] \<longrightarrow> e = eaf_3"
    using m match_loop_no_match [of "reference_annotations word_tier" word eaf_3 id_tier val]
    by auto
  show "\<exists>e t. match_loop eaf_3 id_tier (reference_annotations word_tier) word val = Inr e \<and>
            map_of (tiers e) id_tier = Some t \<and> map_of (tiers e) tier2 = Some word_tier \<and>
            map snd (reference_annotations t) =
              map snd (reference_annotations gloss_tier) @
              map (\<lambda>m. (fst m, val, None, None)) (matching (reference_annotations word_tier) word) \<and>
            length (reference_annotations t) =
              length (reference_annotations gloss_tier) +
              length (matching (reference_annotations word_tier) word) \<and>
            (matching (reference_annotations word_tier) word = [] \<longrightarrow> e = eaf_3)"
    by (intro exI [of _ e] exI [of _ t] conjI m 1 2 3 4 5)
next
  from new_dict_loop_Inr [OF assms, of new_dict] obtain e t where
    m: "new_dict_loop eaf_3 id_tier tier2 new_dict = Inr e" and
    gs: "gloss_step id_tier eaf_3 gloss_tier e t" and
    refs: "map snd (reference_annotations t) =
       map snd (reference_annotations gloss_tier) @
       concat (map (emitted (reference_annotations word_tier)) (pairs_of new_dict))"
    by blast
  have 1: "map_of (tiers e) id_tier = Some t" using gloss_step_tier [OF gs] .
  have 2: "map_of (tiers e) tier2 = Some word_tier"
    using gloss_step_other [OF gs, of tier2] assms(1,2) by simp
  show "\<exists>e t. new_dict_loop eaf_3 id_tier tier2 new_dict = Inr e \<and>
            map_of (tiers e) id_tier = Some t \<and> map_of (tiers e) tier2 = Some word_tier \<and>
            map snd (reference_annotations t) =
              map snd (reference_annotations gloss_tier) @
              concat (map (emitted (reference_annotations word_tier)) (pairs_of new_dict))"
    by (intro exI [of _ e] exI [of _ t] conjI m 1 2 refs)
qed

lemma example_target_tiers:
  "map_of (tiers example_target) ''grammatical_words'' = Some example_word_tier"
  "map_of (tiers example_target) ''gloss'' = Some example_gloss_tier"
  "0 < maxaid example_target"
  "keys_below (maxaid example_target) (reference_annotations example_gloss_tier)"
  by (simp_all add: example_target_def example_gloss_tier_def keys_below_def)

lemma example_matching:
  "matching (reference_annotations example_word_tier) ''no'' =
     [(''a3'', (''a2'', ''no'', None, None)), (''a5'', (''a2'', ''no'', Some ''a4'', None))]"
  "matching (reference_annotations example_word_tier) ''eh'' = []"
  by (simp_all add: matching_def annotation_value_def example_word_tier_def)

theorem gloss_per_match_witness:
  "''gloss'' \<noteq> ''grammatical_words'' \<and> 0 < maxaid example_target \<and>
   (\<exists>e t. match_loop example_target ''gloss'' (reference_annotations example_word_tier)
              ''no'' ''NEG'' = Inr e \<and>
       map_of (tiers e) ''gloss'' = Some t \<and>
       map snd (reference_annotations t) =
         [(''a3'', ''NEG'', None, None), (''a5'', ''NEG'', None, None)])
   \<and> match_loop example_target ''gloss'' (reference_annotations example_word_tier)
        ''eh'' ''X'' = Inr example_target"
proof -
  have ne: "''gloss'' \<noteq> ''grammatical_words''" by simp
  note inst = gloss_per_match [OF ne example_target_tiers, THEN conjunct1]
  from inst [of "''no''" "''NEG''"] obtain e t where
    m: "match_loop example_target ''gloss'' (reference_annotations example_word_tier)
              ''no'' ''NEG'' = Inr e" and
    t: "map_of (tiers e) ''gloss'' = Some t" and
    r: "map snd (reference_annotations t) =
              map snd (reference_annotations example_gloss_tier) @
              map (\<lambda>m. (fst m, ''NEG'', None, None))
                (matching (reference_annotations example_word_tier) ''no'')"
    by blast
  from r have r': "map snd (reference_annotations t) =
         [(''a3'', ''NEG'', None, None), (''a5'', ''NEG'', None, None)]"
    by (simp add: example_matching example_gloss_tier_def)
  from inst [of "''eh''" "''X''"] obtain e2 where
    "match_loop example_target ''gloss'' (reference_annotations example_word_tier)
        ''eh'' ''X'' = Inr e2"
    "matching (reference_annotations example_word_tier) ''eh'' = [] \<longrightarrow> e2 = example_target"
    by blast
  with example_matching(2) have b:
    "match_loop example_target ''gloss'' (reference_annotations example_word_tier)
        ''eh'' ''X'' = Inr example_target" by simp
  show ?thesis
    apply (intro conjI ne example_target_tiers(3) b)
    apply (rule exI [of _ e], rule exI [of _ t])
    apply (intro conjI m t r')
    done
qed

section \<open>The document that main writes\<close>

lemma tier_step_refl: "tier_step tn e e"
  by (simp add: tier_step_def)

lemma tier_step_trans: "tier_step tn e e1 \<Longrightarrow> tier_step tn e1 e2 \<Longrightarrow> tier_step tn e e2"
  by (simp add: tier_step_def)

lemma tier_added_step: "tier_added tn ps e e1 \<Longrightarrow> tier_step tn e1 e2 \<Longrightarrow> tier_added tn ps e e2"
  by (simp add: tier_added_def tier_step_def)

lemma map_of_in_keys: "map_of al k = Some v \<Longrightarrow> k \<in> set (map fst al)"
  by (metis map_of_eq_None_iff option.distinct(1) set_map)

lemma update_tier_step:
  assumes "map_of (tiers e) tn = Some t" "attributes t' = attributes t"
    "tiers e' = AList.update tn t' (tiers e)" "linguistic_types e' = linguistic_types e"
    "adocument e' = adocument e" "maxaid e \<le> maxaid e'"
  shows "tier_step tn e e'"
  using assms map_of_in_keys [OF assms(1)]
  by (simp add: tier_step_def update_conv' update_keys)

lemma add_annotation_step: "add_annotation e tn start en val = Inr e' \<Longrightarrow> tier_step tn e e'"
proof -
  assume a: "add_annotation e tn start en val = Inr e'"
  from add_annotation_Inr [OF a] obtain t m1 where
    t: "map_of (tiers e) tn = Some t" and
    f: "maxaid e < maxaid e'"
    "tiers e' = AList.update tn
               (t\<lparr>aligned_annotations := AList.update (format_aid (maxaid e'))
                     (format_ts m1, format_ts (maxts e'), val, None)
                     (aligned_annotations t)\<rparr>)
               (tiers e)"
    "linguistic_types e' = linguistic_types e" "adocument e' = adocument e"
    by blast
  show ?thesis
    by (rule update_tier_step [OF t _ f(2) f(3) f(4)]) (use f(1) in simp_all)
qed

lemma add_ref_annotation_step:
  "add_ref_annotation env e tn tier2 time val prev = Inr e' \<Longrightarrow> tier_step tn e e'"
proof -
  assume a: "add_ref_annotation env e tn tier2 time val prev = Inr e'"
  from add_ref_annotation_Inr [OF a] obtain ann t where
    t: "map_of (tiers e) tn = Some t" and
    f: "maxaid e < maxaid e'"
    "tiers e' = AList.update tn
        (t\<lparr>reference_annotations := AList.update (format_aid (maxaid e'))
             (ann, val, prev, None) (reference_annotations t)\<rparr>) (tiers e)"
    "linguistic_types e' = linguistic_types e" "adocument e' = adocument e"
    by blast
  show ?thesis
    by (rule update_tier_step [OF t _ f(2) f(3) f(4)]) (use f(1) in simp_all)
qed

lemma tier_copy_loop_step: "tier_copy_loop e tn anns = Inr e' \<Longrightarrow> tier_step tn e e'"
proof (induction anns arbitrary: e)
  case Nil
  then show ?case by (simp add: tier_step_refl)
next
  case (Cons a anns)
  obtain start en val where a: "a = (start, en, val)" by (cases a) auto
  from Cons.prems obtain e1 where
    "add_annotation e tn start en val = Inr e1" "tier_copy_loop e1 tn anns = Inr e'"
    unfolding a by (auto simp add: bind_Inr_iff)
  then show ?case using add_annotation_step Cons.IH tier_step_trans by blast
qed

lemma tier_copy_to_ref_loop_step:
  "tier_copy_to_ref_loop env e tn pn anns = Inr e' \<Longrightarrow> tier_step tn e e'"
proof (induction anns arbitrary: e)
  case Nil
  then show ?case by (simp add: tier_step_refl)
next
  case (Cons a anns)
  obtain start en val where a: "a = (start, en, val)" by (cases a) auto
  from Cons.prems obtain e1 where
    "add_ref_annotation env e tn pn start val None = Inr e1"
    "tier_copy_to_ref_loop env e1 tn pn anns = Inr e'"
    unfolding a by (auto simp add: bind_Inr_iff)
  then show ?case using add_ref_annotation_step Cons.IH tier_step_trans by blast
qed

lemma ref_tier_copy_loop_step:
  "ref_tier_copy_loop env e tn pn anns = Inr e' \<Longrightarrow> tier_step tn e e'"
proof (induction anns arbitrary: e)
  case Nil
  then show ?case by (simp add: tier_step_refl)
next
  case (Cons a anns)
  obtain start en val parent where a: "a = (start, en, val, parent)" by (cases a) auto
  from Cons.prems obtain time e1 where
    "add_ref_annotation env e tn pn time val None = Inr e1"
    "ref_tier_copy_loop env e1 tn pn anns = Inr e'"
    unfolding a by (auto simp add: bind_Inr_iff)
  then show ?case using add_ref_annotation_step Cons.IH tier_step_trans by blast
qed

lemma subdivision_loop_step:
  "subdivision_loop env e tn pn ppid pid anns = Inr e' \<Longrightarrow> tier_step tn e e'"
proof (induction anns arbitrary: e ppid pid)
  case Nil
  then show ?case by (simp add: tier_step_refl)
next
  case (Cons a anns)
  obtain start en val parent where a: "a = (start, en, val, parent)" by (cases a) auto
  from Cons.prems obtain time prev e1 where
    "add_ref_annotation env e tn pn time val prev = Inr e1"
    "subdivision_loop env e1 tn pn (Some parent) (Some (format_aid (maxaid e1))) anns = Inr e'"
    unfolding a by (auto simp add: bind_Inr_iff Let_def)
  then show ?case using add_ref_annotation_step Cons.IH tier_step_trans by blast
qed

lemma add_tier_added:
  "add_tier e tn ling parent (Some ps) = Inr e' \<Longrightarrow> tier_added tn ps e e'"
proof -
  assume "add_tier e tn ling parent (Some ps) = Inr e'"
  from add_tier_Inr [OF this] show ?thesis
    by (simp add: tier_added_def update_conv' update_keys)
qed

lemma tier_copy_added:
  assumes "tier_copy env h s t sn tn ov = Inr h'" "ov \<noteq> []"
  shows "tier_added tn ov (h t) (h' t)"
proof -
  from assms obtain ling target anns target' where
    at: "add_tier (h t) tn ling None (Some ov) = Inr target" and
    l: "tier_copy_loop target tn anns = Inr target'" and
    h': "h' = (h(t := target))(t := target')"
    by (auto simp add: tier_copy_def tier_params_def bind_Inr_iff Let_def)
  from tier_added_step [OF add_tier_added [OF at] tier_copy_loop_step [OF l]] h'
  show ?thesis by simp
qed

lemma tier_copy_to_ref_added:
  assumes "tier_copy_to_ref env h s t sn tn pn ov = Inr h'" "ov \<noteq> []"
  shows "tier_added tn ov (h t) (h' t)"
proof -
  from assms obtain ling target anns target' where
    at: "add_tier (h t) tn ling (Some pn) (Some ov) = Inr target" and
    l: "tier_copy_to_ref_loop env target tn pn anns = Inr target'" and
    h': "h' = (h(t := target))(t := target')"
    by (auto simp add: tier_copy_to_ref_def tier_params_def bind_Inr_iff Let_def)
  from tier_added_step [OF add_tier_added [OF at] tier_copy_to_ref_loop_step [OF l]] h'
  show ?thesis by simp
qed

lemma ref_tier_copy_added:
  assumes "ref_tier_copy env h s t sn tn pn ov = Inr h'" "ov \<noteq> []"
  shows "tier_added tn ov (h t) (h' t)"
proof -
  from assms obtain ling target anns target' where
    at: "add_tier (h t) tn ling (Some pn) (Some ov) = Inr target" and
    l: "ref_tier_copy_loop env target tn pn anns = Inr target'" and
    h': "h' = (h(t := target))(t := target')"
    by (auto simp add: ref_tier_copy_def tier_params_def bind_Inr_iff Let_def)
  from tier_added_step [OF add_tier_added [OF at] ref_tier_copy_loop_step [OF l]] h'
  show ?thesis by simp
qed

lemma copy_symbolic_subdivision_tier_added:
  assumes "copy_symbolic_subdivision_tier env h s t sn tn pn ov = Inr h'" "ov \<noteq> []"
  shows "tier_added tn ov (h t) (h' t)"
proof -
  from assms obtain ling target anns target' where
    at: "add_tier (h t) tn ling (Some pn) (Some ov) = Inr target" and
    l: "subdivision_loop env target tn pn None None anns = Inr target'" and
    h': "h' = (h(t := target))(t := target')"
    by (auto simp add: copy_symbolic_subdivision_tier_def tier_params_def bind_Inr_iff Let_def)
  from tier_added_step [OF add_tier_added [OF at] subdivision_loop_step [OF l]] h'
  show ?thesis by simp
qed

lemma ref_tier_copy_frame:
  "ref_tier_copy env h s t sn tn pn ov = Inr h' \<Longrightarrow> r \<noteq> t \<Longrightarrow> h' r = h r"
  by (auto simp add: ref_tier_copy_def bind_Inr_iff Let_def)

lemma tier_copy_to_ref_frame:
  "tier_copy_to_ref env h s t sn tn pn ov = Inr h' \<Longrightarrow> r \<noteq> t \<Longrightarrow> h' r = h r"
  by (auto simp add: tier_copy_to_ref_def bind_Inr_iff Let_def)

lemma add_gloss_tier_frame:
  "add_gloss_tier env h = Inr h' \<Longrightarrow> r \<noteq> Eaf_3 \<Longrightarrow> h' r = h r"
  by (auto simp add: add_gloss_tier_def bind_Inr_iff Let_def)

lemma Eaf_remove_default:
  "bind (Eaf adoc) (\<lambda>new. remove_tier new ''default'') = Inr (new_document adoc)"
  by (simp add: Eaf_def add_tier_def add_linguistic_type_def remove_tier_def clean_time_slots_def
      bind_def getitem_def Let_def new_document_def)

lemma tier_names_distinct:
  "utterance_id_target_tier \<noteq> utterance_target_tier"
  "utterance_id_target_tier \<noteq> utterance_translation_target_tier"
  "utterance_id_target_tier \<noteq> word_target_tier"
  "utterance_id_target_tier \<noteq> gloss_target_tier"
  "utterance_target_tier \<noteq> utterance_translation_target_tier"
  "utterance_target_tier \<noteq> word_target_tier"
  "utterance_target_tier \<noteq> gloss_target_tier"
  "utterance_translation_target_tier \<noteq> word_target_tier"
  "utterance_translation_target_tier \<noteq> gloss_target_tier"
  "word_target_tier \<noteq> gloss_target_tier"
  by (simp_all add: utterance_id_target_tier_def utterance_target_tier_def
      utterance_translation_target_tier_def word_target_tier_def gloss_target_tier_def)

lemma params_nonempty:
  "utterance_id_tier_params \<noteq> []" "utterance_tier_params \<noteq> []"
  "utterance_translation_tier_params \<noteq> []" "word_tier_params \<noteq> []" "gloss_tier_params \<noteq> []"
  "blank_type_params \<noteq> []" "word_type_params \<noteq> []"
  by (simp_all add: utterance_id_tier_params_def utterance_tier_params_def
      utterance_translation_tier_params_def word_tier_params_def gloss_tier_params_def
      blank_type_params_def word_type_params_def)

lemma copy_tiers_steps:
  assumes "copy_tiers env adoc file_1 file_2 = Inr h"
  shows "\<exists>e1 e2 e3.
     h Eaf_1 = file_1 \<and> h Eaf_2 = file_2 \<and>
     tier_added utterance_id_target_tier utterance_id_tier_params (new_document adoc) e1 \<and>
     tier_added utterance_target_tier utterance_tier_params
       (add_linguistic_type e1 ''Blank'' blank_type_params) e2 \<and>
     tier_added utterance_translation_target_tier utterance_translation_tier_params e2 e3 \<and>
     tier_added word_target_tier word_tier_params
       (add_linguistic_type e3 ''word'' word_type_params) (h Eaf_3)"
proof -
  from assms have "\<exists>new. Eaf adoc = Inr new \<and> (\<exists>e. remove_tier new ''default'' = Inr e)"
    by (auto simp add: copy_tiers_def bind_Inr_iff Let_def)
  then obtain new where new: "Eaf adoc = Inr new" "remove_tier new ''default'' = Inr (new_document adoc)"
    using Eaf_remove_default [of adoc] by (auto simp add: bind_def)
  define h0 where "h0 = (\<lambda>r. case r of Eaf_1 \<Rightarrow> file_1 | Eaf_2 \<Rightarrow> file_2 | Eaf_3 \<Rightarrow> new)
    (Eaf_3 := new_document adoc)"
  from assms new obtain h1 h2 h3 where
    c1: "tier_copy env h0 Eaf_2 Eaf_3 utterance_id_source_tier utterance_id_target_tier
             utterance_id_tier_params = Inr h1" and
    c2: "tier_copy_to_ref env (h1(Eaf_3 := add_linguistic_type (h1 Eaf_3) ''Blank'' blank_type_params))
           Eaf_1 Eaf_3 utterance_source_tier utterance_target_tier
             utterance_id_target_tier utterance_tier_params = Inr h2" and
    c3: "ref_tier_copy env h2 Eaf_1 Eaf_3 utterance_translation_source_tier
             utterance_translation_target_tier utterance_target_tier
             utterance_translation_tier_params = Inr h3" and
    c4: "copy_symbolic_subdivision_tier env
           (h3(Eaf_3 := add_linguistic_type (h3 Eaf_3) ''word'' word_type_params))
           Eaf_2 Eaf_3 word_source_tier word_target_tier
           utterance_id_target_tier word_tier_params = Inr h"
    unfolding copy_tiers_def h0_def
    by (auto simp add: bind_Inr_iff Let_def)
  have f1: "h1 Eaf_1 = file_1" "h1 Eaf_2 = file_2"
    using tier_copy_frame [OF c1] by (simp_all add: h0_def)
  have f2: "h2 Eaf_1 = file_1" "h2 Eaf_2 = file_2"
    using tier_copy_to_ref_frame [OF c2] f1 by simp_all
  have f3: "h3 Eaf_1 = file_1" "h3 Eaf_2 = file_2"
    using ref_tier_copy_frame [OF c3] f2 by simp_all
  have f4: "h Eaf_1 = file_1" "h Eaf_2 = file_2"
    using copy_symbolic_subdivision_tier_frame [OF c4] f3 by simp_all
  have a1: "tier_added utterance_id_target_tier utterance_id_tier_params (new_document adoc) (h1 Eaf_3)"
    using tier_copy_added [OF c1 params_nonempty(1)] by (simp add: h0_def)
  have a2: "tier_added utterance_target_tier utterance_tier_params
       (add_linguistic_type (h1 Eaf_3) ''Blank'' blank_type_params) (h2 Eaf_3)"
    using tier_copy_to_ref_added [OF c2 params_nonempty(2)] by simp
  have a3: "tier_added utterance_translation_target_tier utterance_translation_tier_params
       (h2 Eaf_3) (h3 Eaf_3)"
    using ref_tier_copy_added [OF c3 params_nonempty(3)] by simp
  have a4: "tier_added word_target_tier word_tier_params
       (add_linguistic_type (h3 Eaf_3) ''word'' word_type_params) (h Eaf_3)"
    using copy_symbolic_subdivision_tier_added [OF c4 params_nonempty(4)] by simp
  from f4 a1 a2 a3 a4 show ?thesis by blast
qed

lemma tier_added_keys:
  "tier_added tn ps e e' \<Longrightarrow> tn \<notin> set (map fst (tiers e)) \<Longrightarrow>
   map fst (tiers e') = map fst (tiers e) @ [tn]"
  by (simp add: tier_added_def)

lemma tier_added_attrs:
  "tier_added tn ps e e' \<Longrightarrow> map_option attributes (map_of (tiers e') tn) = Some ps"
  by (simp add: tier_added_def)

lemma tier_added_other:
  "tier_added tn ps e e' \<Longrightarrow> k \<noteq> tn \<Longrightarrow> map_of (tiers e') k = map_of (tiers e) k"
  by (simp add: tier_added_def)

lemma tier_added_fields:
  "tier_added tn ps e e' \<Longrightarrow>
   linguistic_types e' = linguistic_types e \<and> adocument e' = adocument e \<and> maxaid e \<le> maxaid e'"
  by (simp add: tier_added_def)

lemma add_linguistic_type_fields:
  "tiers (add_linguistic_type e l ps) = tiers e"
  "maxaid (add_linguistic_type e l ps) = maxaid e"
  "adocument (add_linguistic_type e l ps) = adocument e"
  "ps \<noteq> [] \<Longrightarrow> linguistic_types (add_linguistic_type e l ps) =
     AList.update l ps (linguistic_types e)"
  by (simp_all add: add_linguistic_type_def)

lemma copy_tiers_shape:
  assumes "copy_tiers env adoc file_1 file_2 = Inr h"
  shows "h Eaf_1 = file_1" "h Eaf_2 = file_2"
    "map fst (tiers (h Eaf_3)) =
       [utterance_id_target_tier, utterance_target_tier, utterance_translation_target_tier,
        word_target_tier]"
    "map_option attributes (map_of (tiers (h Eaf_3)) utterance_id_target_tier) =
       Some utterance_id_tier_params"
    "map_option attributes (map_of (tiers (h Eaf_3)) utterance_target_tier) =
       Some utterance_tier_params"
    "map_option attributes (map_of (tiers (h Eaf_3)) utterance_translation_target_tier) =
       Some utterance_translation_tier_params"
    "map_option attributes (map_of (tiers (h Eaf_3)) word_target_tier) = Some word_tier_params"
    "linguistic_types (h Eaf_3) =
       [(''default-lt'',
          [(''LINGUISTIC_TYPE_ID'', Some ''default-lt''), (''TIME_ALIGNABLE'', Some ''true''),
           (''GRAPHIC_REFERENCES'', Some ''false''), (''CONSTRAINTS'', None)]),
        (''Blank'', blank_type_params), (''word'', word_type_params)]"
    "0 < maxaid (h Eaf_3)" "adocument (h Eaf_3) = adoc"
proof -
  from copy_tiers_steps [OF assms] obtain e1 e2 e3 where
    f: "h Eaf_1 = file_1" "h Eaf_2 = file_2" and
    a1: "tier_added utterance_id_target_tier utterance_id_tier_params (new_document adoc) e1" and
    a2: "tier_added utterance_target_tier utterance_tier_params
       (add_linguistic_type e1 ''Blank'' blank_type_params) e2" and
    a3: "tier_added utterance_translation_target_tier utterance_translation_tier_params e2 e3" and
    a4: "tier_added word_target_tier word_tier_params
       (add_linguistic_type e3 ''word'' word_type_params) (h Eaf_3)"
    by blast
  note n = tier_names_distinct
  note al = add_linguistic_type_fields
  show "h Eaf_1 = file_1" "h Eaf_2 = file_2" using f by simp_all
  have k1: "map fst (tiers e1) = [utterance_id_target_tier]"
    using tier_added_keys [OF a1] by (simp add: new_document_def)
  have k2: "map fst (tiers e2) = [utterance_id_target_tier, utterance_target_tier]"
    using tier_added_keys [OF a2] k1 n by (simp add: al)
  have k3: "map fst (tiers e3) =
      [utterance_id_target_tier, utterance_target_tier, utterance_translation_target_tier]"
    using tier_added_keys [OF a3] k2 n by simp
  show "map fst (tiers (h Eaf_3)) =
       [utterance_id_target_tier, utterance_target_tier, utterance_translation_target_tier,
        word_target_tier]"
    using tier_added_keys [OF a4] k3 n by (simp add: al)
  have "map_of (tiers (h Eaf_3)) utterance_id_target_tier =
      map_of (tiers e1) utterance_id_target_tier"
    using tier_added_other [OF a4, of utterance_id_target_tier]
      tier_added_other [OF a3, of utterance_id_target_tier]
      tier_added_other [OF a2, of utterance_id_target_tier] n by (simp add: al)
  then show "map_option attributes (map_of (tiers (h Eaf_3)) utterance_id_target_tier) =
       Some utterance_id_tier_params"
    using tier_added_attrs [OF a1] by simp
  have "map_of (tiers (h Eaf_3)) utterance_target_tier = map_of (tiers e2) utterance_target_tier"
    using tier_added_other [OF a4, of utterance_target_tier]
      tier_added_other [OF a3, of utterance_target_tier] n by (simp add: al)
  then show "map_option attributes (map_of (tiers (h Eaf_3)) utterance_target_tier) =
       Some utterance_tier_params"
    using tier_added_attrs [OF a2] by simp
  have "map_of (tiers (h Eaf_3)) utterance_translation_target_tier =
      map_of (tiers e3) utterance_translation_target_tier"
    using tier_added_other [OF a4, of utterance_translation_target_tier] n by (simp add: al)
  then show "map_option attributes (map_of (tiers (h Eaf_3)) utterance_translation_target_tier) =
       Some utterance_translation_tier_params"
    using tier_added_attrs [OF a3] by simp
  show "map_option attributes (map_of (tiers (h Eaf_3)) word_target_tier) = Some word_tier_params"
    using tier_added_attrs [OF a4] .
  note fl = tier_added_fields [OF a1] tier_added_fields [OF a2] tier_added_fields [OF a3]
    tier_added_fields [OF a4]
  show "linguistic_types (h Eaf_3) =
       [(''default-lt'',
          [(''LINGUISTIC_TYPE_ID'', Some ''default-lt''), (''TIME_ALIGNABLE'', Some ''true''),
           (''GRAPHIC_REFERENCES'', Some ''false''), (''CONSTRAINTS'', None)]),
        (''Blank'', blank_type_params), (''word'', word_type_params)]"
    using fl params_nonempty by (simp add: al new_document_def)
  show "0 < maxaid (h Eaf_3)"
    using fl by (simp add: al new_document_def)
  show "adocument (h Eaf_3) = adoc"
    using fl by (simp add: al new_document_def)
qed

lemma gloss_step_tier_step:
  "gloss_step id_tier e tg e' tg' \<Longrightarrow> map_of (tiers e) id_tier = Some tg \<Longrightarrow>
   tier_step id_tier e e'"
  by (simp add: gloss_step_def tier_step_def)

lemma add_gloss_tier_Inr:
  assumes "build_new_dict (float_quot env) (h Eaf_2) utterance_id_source_tier word_source_tier
             morph_source_tier gloss_source_tier = Inr new_dict"
    "map_of (tiers (h Eaf_3)) word_target_tier = Some tw" "0 < maxaid (h Eaf_3)"
    "linguistic_types (h Eaf_3) \<noteq> []"
  shows "\<exists>h' tg. add_gloss_tier env h = Inr h' \<and>
     tier_added gloss_target_tier gloss_tier_params (h Eaf_3) (h' Eaf_3) \<and>
     h' Eaf_1 = h Eaf_1 \<and> h' Eaf_2 = h Eaf_2 \<and>
     map_of (tiers (h' Eaf_3)) gloss_target_tier = Some tg \<and>
     map_of (tiers (h' Eaf_3)) word_target_tier = Some tw \<and>
     map snd (reference_annotations tg) =
       concat (map (emitted (reference_annotations tw)) (pairs_of new_dict))"
proof -
  have ne: "gloss_target_tier \<noteq> []" by (simp add: gloss_target_tier_def)
  from add_tier_succeeds [OF ne assms(4)] obtain e where
    at: "add_tier (h Eaf_3) gloss_target_tier (Some ''Blank'') (Some word_target_tier)
             (Some gloss_tier_params) = Inr e" by blast
  let ?t0 = "\<lparr>aligned_annotations = [], reference_annotations = [],
        attributes = gloss_tier_params, ordinal = length (tiers (h Eaf_3))\<rparr>"
  note ta = add_tier_added [OF at]
  from add_tier_Inr [OF at] have t0: "map_of (tiers e) gloss_target_tier = Some ?t0"
    and tw: "map_of (tiers e) word_target_tier = Some tw"
    and pos: "0 < maxaid e"
    using assms(2,3) tier_names_distinct(10) by (simp_all add: update_conv')
  have kb: "keys_below (maxaid e) (reference_annotations ?t0)" by (simp add: keys_below_def)
  from new_dict_loop_Inr [OF tier_names_distinct(10) [symmetric] tw t0 pos kb, of new_dict]
  obtain e' tg where
    l: "new_dict_loop e gloss_target_tier word_target_tier new_dict = Inr e'" and
    gs: "gloss_step gloss_target_tier e ?t0 e' tg" and
    refs: "map snd (reference_annotations tg) =
       concat (map (emitted (reference_annotations tw)) (pairs_of new_dict))"
    by auto
  have r: "add_gloss_tier env h = Inr (h(Eaf_3 := e'))"
    using assms(1) at l by (simp add: add_gloss_tier_def bind_def)
  have 1: "tier_added gloss_target_tier gloss_tier_params (h Eaf_3) e'"
    using tier_added_step [OF ta gloss_step_tier_step [OF gs t0]] .
  have 2: "map_of (tiers e') gloss_target_tier = Some tg" using gloss_step_tier [OF gs] .
  have 3: "map_of (tiers e') word_target_tier = Some tw"
    using gloss_step_other [OF gs, of word_target_tier] tw tier_names_distinct(10) by simp
  show ?thesis
    apply (rule exI [of _ "h(Eaf_3 := e')"], rule exI [of _ tg])
    using r 1 2 3 refs apply simp
    done
qed

lemma main_Inr:
  "main env adoc file_1 file_2 = Inr h' \<longleftrightarrow>
     (\<exists>h. copy_tiers env adoc file_1 file_2 = Inr h \<and> add_gloss_tier env h = Inr h')"
  by (simp add: main_def bind_Inr_iff)

lemma word_tier_after_copy:
  assumes "copy_tiers env adoc file_1 file_2 = Inr h"
  shows "\<exists>tw. map_of (tiers (h Eaf_3)) word_target_tier = Some tw"
  using copy_tiers_shape(7) [OF assms] by (cases "map_of (tiers (h Eaf_3)) word_target_tier") auto

lemma main_effect:
  assumes "main env adoc file_1 file_2 = Inr h"
  shows "\<exists>h0 new_dict tw tg.
     copy_tiers env adoc file_1 file_2 = Inr h0 \<and>
     build_new_dict (float_quot env) file_2 utterance_id_source_tier word_source_tier
       morph_source_tier gloss_source_tier = Inr new_dict \<and>
     tier_added gloss_target_tier gloss_tier_params (h0 Eaf_3) (h Eaf_3) \<and>
     h Eaf_1 = file_1 \<and> h Eaf_2 = file_2 \<and>
     map_of (tiers (h0 Eaf_3)) word_target_tier = Some tw \<and>
     map_of (tiers (h Eaf_3)) word_target_tier = Some tw \<and>
     map_of (tiers (h Eaf_3)) gloss_target_tier = Some tg \<and>
     map snd (reference_annotations tg) =
       concat (map (emitted (reference_annotations tw)) (pairs_of new_dict))"
proof -
  from assms obtain h0 where
    c: "copy_tiers env adoc file_1 file_2 = Inr h0" and g: "add_gloss_tier env h0 = Inr h"
    by (auto simp add: main_Inr)
  note sh = copy_tiers_shape [OF c]
  from g obtain new_dict where
    b: "build_new_dict (float_quot env) (h0 Eaf_2) utterance_id_source_tier word_source_tier
       morph_source_tier gloss_source_tier = Inr new_dict"
    by (auto simp add: add_gloss_tier_def bind_Inr_iff)
  from word_tier_after_copy [OF c] obtain tw where
    tw: "map_of (tiers (h0 Eaf_3)) word_target_tier = Some tw" by blast
  have lt: "linguistic_types (h0 Eaf_3) \<noteq> []" using sh(8) by simp
  from add_gloss_tier_Inr [OF b tw sh(9) lt] g obtain tg where
    "tier_added gloss_target_tier gloss_tier_params (h0 Eaf_3) (h Eaf_3)"
    "h Eaf_1 = h0 Eaf_1" "h Eaf_2 = h0 Eaf_2"
    "map_of (tiers (h Eaf_3)) gloss_target_tier = Some tg"
    "map_of (tiers (h Eaf_3)) word_target_tier = Some tw"
    "map snd (reference_annotations tg) =
       concat (map (emitted (reference_annotations tw)) (pairs_of new_dict))"
    by auto
  with c b tw sh(1,2) show ?thesis by auto
qed

lemma example_main_returns:
  "(case main example_env [] example_file_1 example_file_2 of Inl e \<Rightarrow> False | Inr h \<Rightarrow> True)"
  by code_simp

lemma example_copy_tiers_returns:
  "(case copy_tiers example_env [] example_file_1 example_file_2 of Inl e \<Rightarrow> False | Inr h \<Rightarrow> True)"
  by code_simp

lemma example_new_dict:
  "build_new_dict (float_quot example_env) example_file_2 utterance_id_source_tier
     word_source_tier morph_source_tier gloss_source_tier =
   Inr [(''u1'', 0, 500, [(''no'', ''NEG'')]),
        (''u2'', 1000, 1000, [(''no'', ''NEG''), (''went'', ''go-PST''), (''eh'', [])])]"
  by code_simp

text \<open>
  C7. When \<open>main\<close> returns, the document written holds exactly the tiers \<open>utterance_id\<close>,
  \<open>utterance\<close>, \<open>utterance_translation\<close>, \<open>grammatical_words\<close> and \<open>gloss\<close>, in this order,
  each with the attributes of its dictionary of lines 223-287, and exactly the linguistic
  types \<open>default-lt\<close>, \<open>Blank\<close> and \<open>word\<close>. The parent that the tier \<open>grammatical_words\<close>
  declares is \<open>utterance\<close>, the \<open>PARENT_REF\<close> of \<open>word_tier_params\<close> (line 271), and not the
  \<open>utterance_id\<close> that line 277 passes as the parent of the copy.
\<close>

theorem target_structure:
  assumes "main env adoc file_1 file_2 = Inr h"
  shows "map fst (tiers (h Eaf_3)) =
       [''utterance_id'', ''utterance'', ''utterance_translation'', ''grammatical_words'', ''gloss'']
     \<and> map_option attributes (map_of (tiers (h Eaf_3)) ''utterance_id'') =
         Some [(''LINGUISTIC_TYPE_REF'', Some ''default-lt''), (''TIER_ID'', Some ''utterance_id'')]
     \<and> map_option attributes (map_of (tiers (h Eaf_3)) ''utterance'') =
         Some [(''LINGUISTIC_TYPE_REF'', Some ''Blank''), (''PARENT_REF'', Some ''utterance_id''),
               (''TIER_ID'', Some ''utterance'')]
     \<and> map_option attributes (map_of (tiers (h Eaf_3)) ''utterance_translation'') =
         Some [(''LINGUISTIC_TYPE_REF'', Some ''Blank''), (''PARENT_REF'', Some ''utterance''),
               (''TIER_ID'', Some ''utterance_translation'')]
     \<and> map_option attributes (map_of (tiers (h Eaf_3)) ''grammatical_words'') =
         Some [(''LINGUISTIC_TYPE_REF'', Some ''word''), (''PARENT_REF'', Some ''utterance''),
               (''TIER_ID'', Some ''grammatical_words'')]
     \<and> map_option attributes (map_of (tiers (h Eaf_3)) ''gloss'') =
         Some [(''LINGUISTIC_TYPE_REF'', Some ''Blank''), (''PARENT_REF'', Some ''grammatical_words''),
               (''TIER_ID'', Some ''gloss'')]
     \<and> linguistic_types (h Eaf_3) =
         [(''default-lt'',
            [(''LINGUISTIC_TYPE_ID'', Some ''default-lt''), (''TIME_ALIGNABLE'', Some ''true''),
             (''GRAPHIC_REFERENCES'', Some ''false''), (''CONSTRAINTS'', None)]),
          (''Blank'',
            [(''LINGUISTIC_TYPE_ID'', Some ''Blank''), (''CONSTRAINTS'', Some ''Symbolic_Association''),
             (''TIME_ALIGNABLE'', Some ''false'')]),
          (''word'',
            [(''LINGUISTIC_TYPE_ID'', Some ''word''), (''CONSTRAINTS'', Some ''Symbolic_Subdivision''),
             (''TIME_ALIGNABLE'', Some ''false'')])]"
proof -
  from main_effect [OF assms] obtain h0 where
    c: "copy_tiers env adoc file_1 file_2 = Inr h0" and
    a: "tier_added gloss_target_tier gloss_tier_params (h0 Eaf_3) (h Eaf_3)"
    by blast
  note sh = copy_tiers_shape [OF c]
  note n = tier_names_distinct
  have k: "map fst (tiers (h Eaf_3)) =
      [utterance_id_target_tier, utterance_target_tier, utterance_translation_target_tier,
        word_target_tier, gloss_target_tier]"
    using tier_added_keys [OF a] sh(3) n by simp
  have o: "map_of (tiers (h Eaf_3)) utterance_id_target_tier =
        map_of (tiers (h0 Eaf_3)) utterance_id_target_tier"
      "map_of (tiers (h Eaf_3)) utterance_target_tier =
        map_of (tiers (h0 Eaf_3)) utterance_target_tier"
      "map_of (tiers (h Eaf_3)) utterance_translation_target_tier =
        map_of (tiers (h0 Eaf_3)) utterance_translation_target_tier"
      "map_of (tiers (h Eaf_3)) word_target_tier = map_of (tiers (h0 Eaf_3)) word_target_tier"
    using tier_added_other [OF a] n by simp_all
  have l: "linguistic_types (h Eaf_3) = linguistic_types (h0 Eaf_3)"
    using tier_added_fields [OF a] by simp
  have 1: "map fst (tiers (h Eaf_3)) =
       [''utterance_id'', ''utterance'', ''utterance_translation'', ''grammatical_words'', ''gloss'']"
    using k by (simp add: utterance_id_target_tier_def utterance_target_tier_def
      utterance_translation_target_tier_def word_target_tier_def gloss_target_tier_def)
  have 2: "map_option attributes (map_of (tiers (h Eaf_3)) ''utterance_id'') =
         Some [(''LINGUISTIC_TYPE_REF'', Some ''default-lt''), (''TIER_ID'', Some ''utterance_id'')]"
    using sh(4) o(1) by (simp add: utterance_id_target_tier_def utterance_id_tier_params_def)
  have 3: "map_option attributes (map_of (tiers (h Eaf_3)) ''utterance'') =
         Some [(''LINGUISTIC_TYPE_REF'', Some ''Blank''), (''PARENT_REF'', Some ''utterance_id''),
               (''TIER_ID'', Some ''utterance'')]"
    using sh(5) o(2)
    by (simp add: utterance_id_target_tier_def utterance_target_tier_def utterance_tier_params_def)
  have 4: "map_option attributes (map_of (tiers (h Eaf_3)) ''utterance_translation'') =
         Some [(''LINGUISTIC_TYPE_REF'', Some ''Blank''), (''PARENT_REF'', Some ''utterance''),
               (''TIER_ID'', Some ''utterance_translation'')]"
    using sh(6) o(3)
    by (simp add: utterance_translation_target_tier_def utterance_target_tier_def
        utterance_translation_tier_params_def)
  have 5: "map_option attributes (map_of (tiers (h Eaf_3)) ''grammatical_words'') =
         Some [(''LINGUISTIC_TYPE_REF'', Some ''word''), (''PARENT_REF'', Some ''utterance''),
               (''TIER_ID'', Some ''grammatical_words'')]"
    using sh(7) o(4)
    by (simp add: word_target_tier_def utterance_target_tier_def word_tier_params_def)
  have 6: "map_option attributes (map_of (tiers (h Eaf_3)) ''gloss'') =
         Some [(''LINGUISTIC_TYPE_REF'', Some ''Blank''), (''PARENT_REF'', Some ''grammatical_words''),
               (''TIER_ID'', Some ''gloss'')]"
    using tier_added_attrs [OF a]
    by (simp add: word_target_tier_def gloss_target_tier_def gloss_tier_params_def)
  have 7: "linguistic_types (h Eaf_3) =
         [(''default-lt'',
            [(''LINGUISTIC_TYPE_ID'', Some ''default-lt''), (''TIME_ALIGNABLE'', Some ''true''),
             (''GRAPHIC_REFERENCES'', Some ''false''), (''CONSTRAINTS'', None)]),
          (''Blank'',
            [(''LINGUISTIC_TYPE_ID'', Some ''Blank''), (''CONSTRAINTS'', Some ''Symbolic_Association''),
             (''TIME_ALIGNABLE'', Some ''false'')]),
          (''word'',
            [(''LINGUISTIC_TYPE_ID'', Some ''word''), (''CONSTRAINTS'', Some ''Symbolic_Subdivision''),
             (''TIME_ALIGNABLE'', Some ''false'')])]"
    using sh(8) l by (simp add: blank_type_params_def word_type_params_def)
  show ?thesis by (intro conjI 1 2 3 4 5 6 7)
qed

theorem target_structure_witness:
  "\<exists>h. main example_env [] example_file_1 example_file_2 = Inr h \<and>
       map fst (tiers (h Eaf_3)) =
         [''utterance_id'', ''utterance'', ''utterance_translation'', ''grammatical_words'',
          ''gloss''] \<and>
       map_option attributes (map_of (tiers (h Eaf_3)) ''grammatical_words'') =
         Some [(''LINGUISTIC_TYPE_REF'', Some ''word''), (''PARENT_REF'', Some ''utterance''),
               (''TIER_ID'', Some ''grammatical_words'')]"
proof -
  from example_main_returns obtain h where
    h: "main example_env [] example_file_1 example_file_2 = Inr h"
    by (auto split: sum.splits)
  note t = target_structure [OF h]
  show ?thesis
    by (intro exI [of _ h] conjI h t [THEN conjunct1]
        t [THEN conjunct2, THEN conjunct2, THEN conjunct2, THEN conjunct2, THEN conjunct1])
qed

text \<open>
  C9. A copy function changes no object of the heap but its target, the gloss phase and
  \<open>main\<close> leave both source documents as they were loaded.
\<close>

theorem sources_unchanged:
  "(\<forall>h'. tier_copy env h source_eaf target_eaf sn tn ov = Inr h' \<longrightarrow>
        (\<forall>r. r \<noteq> target_eaf \<longrightarrow> h' r = h r))
   \<and> (\<forall>h'. ref_tier_copy env h source_eaf target_eaf sn tn pn ov = Inr h' \<longrightarrow>
        (\<forall>r. r \<noteq> target_eaf \<longrightarrow> h' r = h r))
   \<and> (\<forall>h'. tier_copy_to_ref env h source_eaf target_eaf sn tn pn ov = Inr h' \<longrightarrow>
        (\<forall>r. r \<noteq> target_eaf \<longrightarrow> h' r = h r))
   \<and> (\<forall>h'. copy_symbolic_subdivision_tier env h source_eaf target_eaf sn tn pn ov = Inr h' \<longrightarrow>
        (\<forall>r. r \<noteq> target_eaf \<longrightarrow> h' r = h r))
   \<and> (\<forall>h'. add_gloss_tier env g = Inr h' \<longrightarrow> h' Eaf_1 = g Eaf_1 \<and> h' Eaf_2 = g Eaf_2)
   \<and> (\<forall>h'. main env adoc file_1 file_2 = Inr h' \<longrightarrow> h' Eaf_1 = file_1 \<and> h' Eaf_2 = file_2)"
proof (intro conjI allI impI)
  fix h' assume "main env adoc file_1 file_2 = Inr h'"
  from main_effect [OF this] show "h' Eaf_1 = file_1" "h' Eaf_2 = file_2" by auto
next
  fix h' r assume "tier_copy env h source_eaf target_eaf sn tn ov = Inr h'" "r \<noteq> target_eaf"
  then show "h' r = h r" by (rule tier_copy_frame)
next
  fix h' r assume "ref_tier_copy env h source_eaf target_eaf sn tn pn ov = Inr h'" "r \<noteq> target_eaf"
  then show "h' r = h r" by (rule ref_tier_copy_frame)
next
  fix h' r assume "tier_copy_to_ref env h source_eaf target_eaf sn tn pn ov = Inr h'" "r \<noteq> target_eaf"
  then show "h' r = h r" by (rule tier_copy_to_ref_frame)
next
  fix h' r assume "copy_symbolic_subdivision_tier env h source_eaf target_eaf sn tn pn ov = Inr h'"
    "r \<noteq> target_eaf"
  then show "h' r = h r" by (rule copy_symbolic_subdivision_tier_frame)
next
  fix h' assume a: "add_gloss_tier env g = Inr h'"
  show "h' Eaf_1 = g Eaf_1" by (rule add_gloss_tier_frame [OF a]) simp
  show "h' Eaf_2 = g Eaf_2" by (rule add_gloss_tier_frame [OF a]) simp
qed

theorem sources_unchanged_witness:
  "\<exists>h. main example_env [] example_file_1 example_file_2 = Inr h \<and>
       h Eaf_1 = example_file_1 \<and> h Eaf_2 = example_file_2"
proof -
  from example_main_returns obtain h where
    h: "main example_env [] example_file_1 example_file_2 = Inr h"
    by (auto split: sum.splits)
  note inst = sources_unchanged [of example_env "\<lambda>r. example_file_1" Eaf_1 Eaf_3 "[]" "[]" "[]" "[]"
      "\<lambda>r. example_file_1" "[]" example_file_1 example_file_2]
  from inst have "\<forall>h'. main example_env [] example_file_1 example_file_2 = Inr h' \<longrightarrow>
      h' Eaf_1 = example_file_1 \<and> h' Eaf_2 = example_file_2"
    by (elim conjE)
  with h show ?thesis by blast
qed

text \<open>
  C5. Matching raises nothing. Once the four tiers are copied and the word/gloss table is
  built, \<open>main\<close> returns, whatever the number of annotations of the target word tier that
  carry a word's value; the gloss tier then holds, for every pair of the table, one
  annotation per match.
\<close>

theorem matching_never_fails:
  assumes "copy_tiers env adoc file_1 file_2 = Inr h"
    "build_new_dict (float_quot env) file_2 utterance_id_source_tier word_source_tier
       morph_source_tier gloss_source_tier = Inr new_dict"
  shows "\<exists>h' tw tg. main env adoc file_1 file_2 = Inr h' \<and>
     map_of (tiers (h Eaf_3)) word_target_tier = Some tw \<and>
     map_of (tiers (h' Eaf_3)) gloss_target_tier = Some tg \<and>
     map snd (reference_annotations tg) =
       concat (map (emitted (reference_annotations tw)) (pairs_of new_dict))"
proof -
  note sh = copy_tiers_shape [OF assms(1)]
  from word_tier_after_copy [OF assms(1)] obtain tw where
    tw: "map_of (tiers (h Eaf_3)) word_target_tier = Some tw" by blast
  have lt: "linguistic_types (h Eaf_3) \<noteq> []" using sh(8) by simp
  from assms(2) sh(2) have b: "build_new_dict (float_quot env) (h Eaf_2) utterance_id_source_tier
      word_source_tier morph_source_tier gloss_source_tier = Inr new_dict" by simp
  from add_gloss_tier_Inr [OF b tw sh(9) lt] obtain h' tg where
    g: "add_gloss_tier env h = Inr h'" and
    r: "map_of (tiers (h' Eaf_3)) gloss_target_tier = Some tg"
    "map snd (reference_annotations tg) =
       concat (map (emitted (reference_annotations tw)) (pairs_of new_dict))"
    by blast
  from assms(1) g have "main env adoc file_1 file_2 = Inr h'" by (simp add: main_def bind_def)
  with tw r show ?thesis by blast
qed

theorem matching_never_fails_counterexample:
  "(case main example_env [] example_file_1 example_file_2 of
      Inl e \<Rightarrow> None
    | Inr h \<Rightarrow> map_option (\<lambda>t. map snd (reference_annotations t))
               (map_of (tiers (h Eaf_3)) gloss_target_tier)) =
   Some [(''a8'', ''NEG'', None, None), (''a9'', ''NEG'', None, None),
         (''a8'', ''NEG'', None, None), (''a9'', ''NEG'', None, None),
         (''a10'', ''go-PST'', None, None), (''a11'', [], None, None)]"
  by code_simp

theorem matching_never_fails_witness:
  "(\<exists>h. copy_tiers example_env [] example_file_1 example_file_2 = Inr h) \<and>
   (\<exists>h'. main example_env [] example_file_1 example_file_2 = Inr h')"
proof -
  from example_copy_tiers_returns obtain h where
    h: "copy_tiers example_env [] example_file_1 example_file_2 = Inr h"
    by (auto split: sum.splits)
  from matching_never_fails [OF h example_new_dict] h show ?thesis by blast
qed

section \<open>Word durations and utterances without words\<close>






















section \<open>Two runs on the same documents\<close>











lemma get_annotation_data_adocument:
  assumes "\<And>e a id_tier. ref_annotation_data env (e\<lparr>adocument := a\<rparr>) id_tier =
      ref_annotation_data env e id_tier"
  shows "get_annotation_data_for_tier env (e\<lparr>adocument := a\<rparr>) id_tier =
     get_annotation_data_for_tier env e id_tier"
  by (simp add: get_annotation_data_for_tier_def assms cong: if_cong)


























end
